theory Spec2Isabelle
  imports Complex_Main
begin

section \<open>The generic document tree\<close>

text \<open>
  The parser works on the position-annotated tree produced by the external package
  \<^verbatim>\<open>@basketry/ast\<close>: object nodes with ordered key/value children (duplicate keys are
  kept, lookups take the first), array nodes and literal nodes. Source ranges (\<^verbatim>\<open>loc\<close>)
  play no role in the properties below and are left out of the model.
\<close>

datatype jsnum = Finite rat | PosInfinity | NegInfinity | NaN

datatype literal = LString string | LNumber jsnum | LBoolean bool | LNull

datatype ASTNode =
    Object "(string \<times> ASTNode) list"
  | Array "ASTNode list"
  | Literal literal

text \<open>Every \<^verbatim>\<open>throw\<close> of the source, and the runtime errors of the language, as values.\<close>

datatype error =
    CannotResolveRef string
  | ValueIsNotAnArray
  | CannotParseLiteral
  | UnknownSchemaDefinition
  | UnknownSecuritySchemeType
  | CannotResolveReference
  | CannotResolveReferenceTo string
  | UnexpectedUndefinedSchema
  | ExpectedArrayItems
  | NotImplemented
  | TypeError
  | RangeError

definition bind :: "error + 'a \<Rightarrow> ('a \<Rightarrow> error + 'b) \<Rightarrow> error + 'b" where
  "bind m f = (case m of Inl e \<Rightarrow> Inl e | Inr x \<Rightarrow> f x)"

fun mapM :: "('a \<Rightarrow> error + 'b) \<Rightarrow> 'a list \<Rightarrow> error + 'b list" where
  "mapM f [] = Inr []"
| "mapM f (x # xs) = bind (f x) (\<lambda>y. bind (mapM f xs) (\<lambda>ys. Inr (y # ys)))"

subsection \<open>String primitives of the host language\<close>

definition startsWith :: "string \<Rightarrow> string \<Rightarrow> bool" where
  "startsWith s p = (take (length p) s = p)"

definition substring :: "string \<Rightarrow> nat \<Rightarrow> string" where
  "substring s n = drop n s"

text \<open>\<^verbatim>\<open>s.split(c)\<close> for a one-character separator: never empty, \<^verbatim>\<open>''.split('/') = ['']\<close>.\<close>

fun split :: "char \<Rightarrow> string \<Rightarrow> string list" where
  "split c [] = [[]]"
| "split c (x # xs) =
     (if x = c then [] # split c xs
      else (case split c xs of [] \<Rightarrow> [[x]] | y # ys \<Rightarrow> (x # y) # ys))"

text \<open>Truthiness of a literal value, as \<^verbatim>\<open>a ? b : c\<close>, \<^verbatim>\<open>||\<close> and \<^verbatim>\<open>!\<close> read it.\<close>

fun truthy :: "literal \<Rightarrow> bool" where
  "truthy (LString s) = (s \<noteq> [])"
| "truthy (LNumber n) = (n \<noteq> Finite 0 \<and> n \<noteq> NaN)"
| "truthy (LBoolean b) = b"
| "truthy LNull = False"

subsection \<open>The accessors of \<^verbatim>\<open>DocumentNode\<close>\<close>

text \<open>
  A typed view (\<^verbatim>\<open>DocumentNode\<close> and its subclasses) wraps one tree node and never copies
  it, so a view is modelled by the node it wraps; where the source distinguishes views by
  \<^verbatim>\<open>nodeType\<close> the model uses a datatype. The accessors below are those of the base class
  of \<^verbatim>\<open>@basketry/ast\<close>, as the overlay classes use them: \<^verbatim>\<open>getProperty\<close> finds the first
  child with the key (nothing on a node that is not an object), \<^verbatim>\<open>getChild\<close> and
  \<^verbatim>\<open>getLiteral\<close> wrap its value, \<^verbatim>\<open>getArray\<close> gives the children of an array value and nothing for any other value,
  \<^verbatim>\<open>keys\<close> lists the keys of an object node in document order, and reading \<^verbatim>\<open>value\<close> of a
  literal view throws when the wrapped node is not a literal.
\<close>

definition getProperty :: "ASTNode \<Rightarrow> string \<Rightarrow> ASTNode option" where
  "getProperty node key = (case node of Object children \<Rightarrow> map_of children key | _ \<Rightarrow> None)"

definition keys :: "ASTNode \<Rightarrow> string list" where
  "keys node = (case node of Object children \<Rightarrow> map fst children | _ \<Rightarrow> [])"

definition getChild :: "ASTNode \<Rightarrow> string \<Rightarrow> ASTNode option" where
  "getChild node key = getProperty node key"

definition getLiteral :: "ASTNode \<Rightarrow> string \<Rightarrow> ASTNode option" where
  "getLiteral node key = getChild node key"

definition getArray :: "ASTNode \<Rightarrow> string \<Rightarrow> ASTNode list option" where
  "getArray node key =
     (case getProperty node key of
        Some (Array children) \<Rightarrow> Some children
      | _ \<Rightarrow> None)"

definition literalValue :: "ASTNode \<Rightarrow> error + literal" where
  "literalValue node = (case node of Literal v \<Rightarrow> Inr v | _ \<Rightarrow> Inl CannotParseLiteral)"

text \<open>\<^verbatim>\<open>view.key?.value\<close>: nothing when the key is absent, else the literal's value.\<close>

definition optValue :: "ASTNode \<Rightarrow> string \<Rightarrow> error + literal option" where
  "optValue node key =
     (case getLiteral node key of
        None \<Rightarrow> Inr None
      | Some n \<Rightarrow> bind (literalValue n) (\<lambda>v. Inr (Some v)))"

definition isObject :: "ASTNode \<Rightarrow> bool" where
  "isObject node = (case node of Object _ \<Rightarrow> True | _ \<Rightarrow> False)"

definition isRef :: "ASTNode option \<Rightarrow> bool" where
  "isRef node =
     (case node of
        Some (Object children) \<Rightarrow> list_ex (\<lambda>n. fst n = ''$ref'') children
      | _ \<Rightarrow> False)"

text \<open>
  \<^verbatim>\<open>ref.$ref.value\<close> handed to a function that calls \<^verbatim>\<open>startsWith\<close> on it: a literal that
  is not a string has no such method and raises a type error.
\<close>

definition refValue :: "ASTNode \<Rightarrow> error + string" where
  "refValue node =
     (case getLiteral node ''$ref'' of
        None \<Rightarrow> Inl TypeError
      | Some n \<Rightarrow>
          bind (literalValue n) (\<lambda>v. case v of LString s \<Rightarrow> Inr s | _ \<Rightarrow> Inl TypeError))"

section \<open>The reference resolver\<close>

text \<open>The loop of \<^verbatim>\<open>resolveRef\<close> over \<^verbatim>\<open>ref.split('/')\<close>, with \<^verbatim>\<open>result\<close> as accumulator
  (\<open>doc\<close> is the source's \<^verbatim>\<open>root\<close>).\<close>

fun resolveSegments :: "ASTNode \<Rightarrow> string \<Rightarrow> ASTNode \<Rightarrow> string list \<Rightarrow> error + ASTNode" where
  "resolveSegments doc ref result [] = Inr result"
| "resolveSegments doc ref result (segment # rest) =
     (if segment = ''#'' then resolveSegments doc ref doc rest
      else (case result of
              Object children \<Rightarrow>
                (case map_of children segment of
                   None \<Rightarrow> Inl (CannotResolveRef ref)
                 | Some child \<Rightarrow> resolveSegments doc ref child rest)
            | _ \<Rightarrow> Inl (CannotResolveRef ref)))"

definition resolveRef :: "ASTNode \<Rightarrow> string \<Rightarrow> error + ASTNode" where
  "resolveRef doc ref =
     (if \<not> startsWith ref ''#'' then Inl (CannotResolveRef ref)
      else resolveSegments doc ref doc (split (CHR ''/'') ref))"

section \<open>The typed overlay: schemas and references\<close>

datatype SchemaNodeUnion =
    StringSchemaNode ASTNode
  | NumberSchemaNode ASTNode
  | BooleanSchemaNode ASTNode
  | ArraySchemaNode ASTNode
  | ObjectSchemaNode ASTNode

text \<open>A field that holds either an inline item or a reference (\<^verbatim>\<open>T | RefNode\<close>).\<close>

datatype 'a OrRef = RefNode ASTNode | Node 'a

fun schemaNode :: "SchemaNodeUnion \<Rightarrow> ASTNode" where
  "schemaNode (StringSchemaNode n) = n"
| "schemaNode (NumberSchemaNode n) = n"
| "schemaNode (BooleanSchemaNode n) = n"
| "schemaNode (ArraySchemaNode n) = n"
| "schemaNode (ObjectSchemaNode n) = n"

fun isString :: "SchemaNodeUnion \<Rightarrow> bool" where
  "isString (StringSchemaNode n) = True"
| "isString _ = False"

fun isNumber :: "SchemaNodeUnion \<Rightarrow> bool" where
  "isNumber (NumberSchemaNode n) = True"
| "isNumber _ = False"

fun isArray :: "SchemaNodeUnion \<Rightarrow> bool" where
  "isArray (ArraySchemaNode n) = True"
| "isArray _ = False"

fun isObjectSchema :: "SchemaNodeUnion \<Rightarrow> bool" where
  "isObjectSchema (ObjectSchemaNode n) = True"
| "isObjectSchema _ = False"

text \<open>
  The \<^verbatim>\<open>switch (typeNode.value)\<close> that \<^verbatim>\<open>resolveSchema\<close> and \<^verbatim>\<open>toSchemaOrRef\<close> both contain;
  \<open>None\<close> is the fall-through.
\<close>

definition switchType :: "literal \<Rightarrow> ASTNode \<Rightarrow> SchemaNodeUnion option" where
  "switchType t node =
     (if t = LString ''string'' then Some (StringSchemaNode node)
      else if t = LString ''integer'' \<or> t = LString ''number'' then Some (NumberSchemaNode node)
      else if t = LString ''boolean'' then Some (BooleanSchemaNode node)
      else if t = LString ''array'' then Some (ArraySchemaNode node)
      else if t = LString ''object'' then Some (ObjectSchemaNode node)
      else None)"

definition toSchemaOrRef :: "ASTNode option \<Rightarrow> error + SchemaNodeUnion OrRef option" where
  "toSchemaOrRef v =
     (case v of
        None \<Rightarrow> Inr None
      | Some val \<Rightarrow>
          if isRef (Some val) then Inr (Some (RefNode val))
          else (case val of
                  Object children \<Rightarrow>
                    (case map_of children ''type'' of
                       None \<Rightarrow> Inr (Some (Node (ObjectSchemaNode val)))
                     | Some (Literal t) \<Rightarrow>
                         (case switchType t val of
                            Some s \<Rightarrow> Inr (Some (Node s))
                          | None \<Rightarrow> Inl UnknownSchemaDefinition)
                     | Some _ \<Rightarrow> Inl UnknownSchemaDefinition)
                | _ \<Rightarrow> Inl UnknownSchemaDefinition))"

definition resolveSchema :: "ASTNode \<Rightarrow> SchemaNodeUnion OrRef \<Rightarrow> error + SchemaNodeUnion option" where
  "resolveSchema doc schemaOrRef =
     (case schemaOrRef of
        Node s \<Rightarrow> Inr (Some s)
      | RefNode r \<Rightarrow>
          bind (refValue r) (\<lambda>ref.
          bind (resolveRef doc ref) (\<lambda>node.
            case node of
              Object children \<Rightarrow>
                (case map_of children ''type'' of
                   None \<Rightarrow> Inr (Some (ObjectSchemaNode node))
                 | Some (Literal t) \<Rightarrow> Inr (switchType t node)
                 | Some _ \<Rightarrow> Inr None)
            | _ \<Rightarrow> Inr None)))"

definition resolve :: "ASTNode \<Rightarrow> ASTNode OrRef \<Rightarrow> error + ASTNode" where
  "resolve doc itemOrRef =
     (case itemOrRef of
        RefNode r \<Rightarrow> bind (refValue r) (\<lambda>ref. resolveRef doc ref)
      | Node item \<Rightarrow> Inr item)"

definition resolveParam :: "ASTNode \<Rightarrow> ASTNode OrRef \<Rightarrow> error + ASTNode option" where
  "resolveParam doc paramOrRef =
     (case paramOrRef of
        Node param \<Rightarrow> Inr (Some param)
      | RefNode r \<Rightarrow>
          bind (refValue r) (\<lambda>ref.
          bind (resolveRef doc ref) (\<lambda>node.
            if \<not> isObject node then Inr None else Inr (Some node))))"

definition getChildOrRef :: "ASTNode \<Rightarrow> string \<Rightarrow> ASTNode OrRef option" where
  "getChildOrRef node key =
     (case getProperty node key of
        None \<Rightarrow> None
      | Some v \<Rightarrow> if isRef (Some v) then Some (RefNode v) else Some (Node v))"

subsection \<open>\<^verbatim>\<open>ObjectSchemaNode\<close>\<close>

fun isObjectSchemaOrRef :: "SchemaNodeUnion OrRef option \<Rightarrow> bool" where
  "isObjectSchemaOrRef (Some (Node (ObjectSchemaNode n))) = True"
| "isObjectSchemaOrRef (Some (RefNode r)) = True"
| "isObjectSchemaOrRef _ = False"

text \<open>
  \<^verbatim>\<open>prop.children.map(toSchemaOrRef).filter(isObjectSchemaOrRef)\<close>, the body the three
  composition getters share; each getter names the property it reads.
\<close>

definition compositionMembers :: "ASTNode list \<Rightarrow> error + SchemaNodeUnion OrRef list" where
  "compositionMembers children =
     bind (mapM (\<lambda>c. toSchemaOrRef (Some c)) children) (\<lambda>ms.
       Inr (List.map_filter (\<lambda>m. if isObjectSchemaOrRef m then m else None) ms))"

definition allOf :: "ASTNode \<Rightarrow> error + SchemaNodeUnion OrRef list option" where
  "allOf node =
     (case getProperty node ''allOf'' of
        Some (Array children) \<Rightarrow> bind (compositionMembers children) (\<lambda>ms. Inr (Some ms))
      | _ \<Rightarrow> Inr None)"

definition oneOf :: "ASTNode \<Rightarrow> error + SchemaNodeUnion OrRef list option" where
  "oneOf node =
     (case getProperty node ''oneOf'' of
        Some (Array children) \<Rightarrow> bind (compositionMembers children) (\<lambda>ms. Inr (Some ms))
      | _ \<Rightarrow> Inr None)"

definition anyOf :: "ASTNode \<Rightarrow> error + SchemaNodeUnion OrRef list option" where
  "anyOf node =
     (case getProperty node ''oneOf'' of
        Some (Array children) \<Rightarrow> bind (compositionMembers children) (\<lambda>ms. Inr (Some ms))
      | _ \<Rightarrow> Inr None)"

text \<open>
  \<^verbatim>\<open>additionalProperties\<close> is a literal view when the value is a literal, a schema or a
  reference when it is an object, and undefined otherwise.
\<close>

datatype AdditionalProperties =
    APLiteral ASTNode
  | APSchema "SchemaNodeUnion OrRef"

definition additionalProperties :: "ASTNode \<Rightarrow> error + AdditionalProperties option" where
  "additionalProperties node =
     (case getProperty node ''additionalProperties'' of
        Some (Literal v) \<Rightarrow> Inr (map_option APLiteral (getLiteral node ''additionalProperties''))
      | Some (Object children) \<Rightarrow>
          bind (toSchemaOrRef (Some (Object children))) (\<lambda>s. Inr (map_option APSchema s))
      | _ \<Rightarrow> Inr None)"

subsection \<open>Vocabulary for the statements about the resolver and the classifier\<close>

text \<open>
  A segment other than the root marker \<^verbatim>\<open>#\<close> is looked up as a property of the node
  reached so far; the lookup fails on a node that is not an object and on an object
  without that key.
\<close>

definition lookupFails :: "ASTNode \<Rightarrow> string \<Rightarrow> bool" where
  "lookupFails node segment =
     (segment \<noteq> ''#'' \<and> (\<not> isObject node \<or> getProperty node segment = None))"

text \<open>
  The classification rule in the words of the specification (section 4.2), to compare
  the two classifiers of the source with: an object-shaped node lacking \<^verbatim>\<open>type\<close> is an
  object schema; one whose \<^verbatim>\<open>type\<close> is among the six recognised names is the
  corresponding variant; anything else has no classification.
\<close>

definition classifySpec :: "ASTNode \<Rightarrow> SchemaNodeUnion option" where
  "classifySpec node =
     (if \<not> isObject node then None
      else (case getProperty node ''type'' of
              None \<Rightarrow> Some (ObjectSchemaNode node)
            | Some (Literal (LString t)) \<Rightarrow>
                (if t = ''string'' then Some (StringSchemaNode node)
                 else if t = ''integer'' then Some (NumberSchemaNode node)
                 else if t = ''number'' then Some (NumberSchemaNode node)
                 else if t = ''boolean'' then Some (BooleanSchemaNode node)
                 else if t = ''array'' then Some (ArraySchemaNode node)
                 else if t = ''object'' then Some (ObjectSchemaNode node)
                 else None)
            | Some _ \<Rightarrow> None))"

text \<open>Documents used to run the definitions on concrete inputs.\<close>

definition doc1 :: ASTNode where
  "doc1 = Object [(''a'', Object [(''b'', Literal (LString ''x''))])]"

definition doc2 :: ASTNode where
  "doc2 = Object
     [(''components'', Object
        [(''schemas'', Object
           [(''Count'', Object [(''type'', Literal (LString ''integer''))]),
            (''Any'', Object [(''description'', Literal (LString ''composition''))]),
            (''Odd'', Object [(''type'', Literal (LString ''null''))])])])]"

section \<open>Validation rule synthesis\<close>

text \<open>
  The rules are tagged variants; \<open>ruleId\<close> is the \<^verbatim>\<open>id\<close> field of the emitted object. The
  numeric and string payloads are the literal values read from the schema.
\<close>

datatype ValidationRule =
    Required
  | StringEnum "literal list"
  | StringFormat string
  | StringMaxLength jsnum
  | StringMinLength jsnum
  | StringPattern string
  | NumberMultipleOf jsnum
  | NumberGT jsnum
  | NumberGTE jsnum
  | NumberLT jsnum
  | NumberLTE jsnum
  | ArrayMaxItems jsnum
  | ArrayMinItems jsnum
  | ArrayUniqueItems

fun ruleId :: "ValidationRule \<Rightarrow> string" where
  "ruleId Required = ''required''"
| "ruleId (StringEnum vs) = ''string-enum''"
| "ruleId (StringFormat f) = ''string-format''"
| "ruleId (StringMaxLength n) = ''string-max-length''"
| "ruleId (StringMinLength n) = ''string-min-length''"
| "ruleId (StringPattern p) = ''string-pattern''"
| "ruleId (NumberMultipleOf n) = ''number-multiple-of''"
| "ruleId (NumberGT n) = ''number-gt''"
| "ruleId (NumberGTE n) = ''number-gte''"
| "ruleId (NumberLT n) = ''number-lt''"
| "ruleId (NumberLTE n) = ''number-lte''"
| "ruleId (ArrayMaxItems n) = ''array-max-items''"
| "ruleId (ArrayMinItems n) = ''array-min-items''"
| "ruleId ArrayUniqueItems = ''array-unique-items''"

datatype ObjectValidationRule =
    ObjectMinProperties jsnum
  | ObjectMaxProperties jsnum
  | ObjectAdditionalProperties

fun objectRuleId :: "ObjectValidationRule \<Rightarrow> string" where
  "objectRuleId (ObjectMinProperties n) = ''object-min-properties''"
| "objectRuleId (ObjectMaxProperties n) = ''object-max-properties''"
| "objectRuleId ObjectAdditionalProperties = ''object-additional-properties''"

text \<open>
  \<^verbatim>\<open>typeof def.key?.value === 'number'\<close> and \<^verbatim>\<open>=== 'string'\<close>: the value when the test
  holds, nothing when the key is absent or holds another literal; reading the value of a
  node that is not a literal throws.
\<close>

definition numberValue :: "ASTNode \<Rightarrow> string \<Rightarrow> error + jsnum option" where
  "numberValue node key =
     bind (optValue node key) (\<lambda>v. case v of Some (LNumber n) \<Rightarrow> Inr (Some n) | _ \<Rightarrow> Inr None)"

definition stringValue :: "ASTNode \<Rightarrow> string \<Rightarrow> error + string option" where
  "stringValue node key =
     bind (optValue node key) (\<lambda>v. case v of Some (LString s) \<Rightarrow> Inr (Some s) | _ \<Rightarrow> Inr None)"

text \<open>\<^verbatim>\<open>def.key?.value ? a : b\<close>: an absent key is falsy.\<close>

definition flagValue :: "ASTNode \<Rightarrow> string \<Rightarrow> error + bool" where
  "flagValue node key =
     bind (optValue node key) (\<lambda>v. case v of Some l \<Rightarrow> Inr (truthy l) | None \<Rightarrow> Inr False)"

definition stringMaxLengthFactory :: "SchemaNodeUnion \<Rightarrow> error + ValidationRule option" where
  "stringMaxLengthFactory def =
     (case def of
        StringSchemaNode n \<Rightarrow>
          bind (numberValue n ''maxLength'') (\<lambda>v. Inr (map_option StringMaxLength v))
      | _ \<Rightarrow> Inr None)"

definition stringMinLengthFactory :: "SchemaNodeUnion \<Rightarrow> error + ValidationRule option" where
  "stringMinLengthFactory def =
     (case def of
        StringSchemaNode n \<Rightarrow>
          bind (numberValue n ''minLength'') (\<lambda>v. Inr (map_option StringMinLength v))
      | _ \<Rightarrow> Inr None)"

definition stringPatternFactory :: "SchemaNodeUnion \<Rightarrow> error + ValidationRule option" where
  "stringPatternFactory def =
     (case def of
        StringSchemaNode n \<Rightarrow>
          bind (stringValue n ''pattern'') (\<lambda>v. Inr (map_option StringPattern v))
      | _ \<Rightarrow> Inr None)"

definition stringFormatFactory :: "SchemaNodeUnion \<Rightarrow> error + ValidationRule option" where
  "stringFormatFactory def =
     (case def of
        StringSchemaNode n \<Rightarrow>
          bind (stringValue n ''format'') (\<lambda>v. Inr (map_option StringFormat v))
      | _ \<Rightarrow> Inr None)"

definition stringEnumFactory :: "SchemaNodeUnion \<Rightarrow> error + ValidationRule option" where
  "stringEnumFactory def =
     (case def of
        StringSchemaNode n \<Rightarrow>
          (case getArray n ''enum'' of
             None \<Rightarrow> Inr None
           | Some members \<Rightarrow> bind (mapM literalValue members) (\<lambda>vs. Inr (Some (StringEnum vs))))
      | _ \<Rightarrow> Inr None)"

definition numberMultipleOfFactory :: "SchemaNodeUnion \<Rightarrow> error + ValidationRule option" where
  "numberMultipleOfFactory def =
     (case def of
        NumberSchemaNode n \<Rightarrow>
          bind (numberValue n ''multipleOf'') (\<lambda>v. Inr (map_option NumberMultipleOf v))
      | _ \<Rightarrow> Inr None)"

definition numberGreaterThanFactory :: "SchemaNodeUnion \<Rightarrow> error + ValidationRule option" where
  "numberGreaterThanFactory def =
     (case def of
        NumberSchemaNode n \<Rightarrow>
          bind (numberValue n ''minimum'') (\<lambda>v.
            case v of
              None \<Rightarrow> Inr None
            | Some m \<Rightarrow>
                bind (flagValue n ''exclusiveMinimum'') (\<lambda>exclusive.
                  Inr (Some (if exclusive then NumberGT m else NumberGTE m))))
      | _ \<Rightarrow> Inr None)"

definition numberLessThanFactory :: "SchemaNodeUnion \<Rightarrow> error + ValidationRule option" where
  "numberLessThanFactory def =
     (case def of
        NumberSchemaNode n \<Rightarrow>
          bind (numberValue n ''maximum'') (\<lambda>v.
            case v of
              None \<Rightarrow> Inr None
            | Some m \<Rightarrow>
                bind (flagValue n ''exclusiveMinimum'') (\<lambda>exclusive.
                  Inr (Some (if exclusive then NumberLT m else NumberLTE m))))
      | _ \<Rightarrow> Inr None)"

definition arrayMinItemsFactory :: "SchemaNodeUnion \<Rightarrow> error + ValidationRule option" where
  "arrayMinItemsFactory def =
     (case def of
        ArraySchemaNode n \<Rightarrow>
          bind (numberValue n ''minItems'') (\<lambda>v. Inr (map_option ArrayMinItems v))
      | _ \<Rightarrow> Inr None)"

definition arrayMaxItemsFactory :: "SchemaNodeUnion \<Rightarrow> error + ValidationRule option" where
  "arrayMaxItemsFactory def =
     (case def of
        ArraySchemaNode n \<Rightarrow>
          bind (numberValue n ''maxItems'') (\<lambda>v. Inr (map_option ArrayMaxItems v))
      | _ \<Rightarrow> Inr None)"

text \<open>The test is on the presence of the literal view, not on its value.\<close>

definition arrayUniqueItemsFactory :: "SchemaNodeUnion \<Rightarrow> error + ValidationRule option" where
  "arrayUniqueItemsFactory def =
     (case def of
        ArraySchemaNode n \<Rightarrow>
          (case getLiteral n ''uniqueItems'' of
             Some u \<Rightarrow> Inr (Some ArrayUniqueItems)
           | None \<Rightarrow> Inr None)
      | _ \<Rightarrow> Inr None)"

definition objectMinPropertiesFactory :: "SchemaNodeUnion \<Rightarrow> error + ObjectValidationRule option" where
  "objectMinPropertiesFactory def =
     (case def of
        ObjectSchemaNode n \<Rightarrow>
          bind (numberValue n ''minProperties'') (\<lambda>v. Inr (map_option ObjectMinProperties v))
      | _ \<Rightarrow> Inr None)"

definition objectMaxPropertiesFactory :: "SchemaNodeUnion \<Rightarrow> error + ObjectValidationRule option" where
  "objectMaxPropertiesFactory def =
     (case def of
        ObjectSchemaNode n \<Rightarrow>
          bind (numberValue n ''maxProperties'') (\<lambda>v. Inr (map_option ObjectMaxProperties v))
      | _ \<Rightarrow> Inr None)"

definition objectAdditionalPropertiesFactory ::
  "SchemaNodeUnion \<Rightarrow> error + ObjectValidationRule option" where
  "objectAdditionalPropertiesFactory def =
     (case def of
        ObjectSchemaNode n \<Rightarrow>
          bind (additionalProperties n) (\<lambda>ap.
            case ap of
              Some (APLiteral l) \<Rightarrow>
                bind (literalValue l) (\<lambda>v.
                  if v = LBoolean False then Inr (Some ObjectAdditionalProperties) else Inr None)
            | _ \<Rightarrow> Inr None)
      | _ \<Rightarrow> Inr None)"

definition factories :: "(SchemaNodeUnion \<Rightarrow> error + ValidationRule option) list" where
  "factories =
     [stringEnumFactory, stringFormatFactory, stringMaxLengthFactory, stringMinLengthFactory,
      stringPatternFactory, numberMultipleOfFactory, numberGreaterThanFactory,
      numberLessThanFactory, arrayMaxItemsFactory, arrayMinItemsFactory,
      arrayUniqueItemsFactory]"

definition objectFactories :: "(SchemaNodeUnion \<Rightarrow> error + ObjectValidationRule option) list" where
  "objectFactories =
     [objectMaxPropertiesFactory, objectMinPropertiesFactory, objectAdditionalPropertiesFactory]"

text \<open>\<^verbatim>\<open>fs.map((f) => f(def)).filter((x) => !!x)\<close>\<close>

definition applyFactories :: "('s \<Rightarrow> error + 'r option) list \<Rightarrow> 's \<Rightarrow> error + 'r list" where
  "applyFactories fs def = bind (mapM (\<lambda>f. f def) fs) (\<lambda>rs. Inr (List.map_filter id rs))"

definition items :: "ASTNode \<Rightarrow> error + SchemaNodeUnion OrRef option" where
  "items node = toSchemaOrRef (getProperty node ''items'')"

text \<open>
  \<^verbatim>\<open>parseRules\<close>. Every call of the source passes a schema view, on which \<^verbatim>\<open>parseSchema\<close>
  returns its argument; \<open>required\<close> is the truthiness of the optional flag the caller
  passes.
\<close>

definition parseRules :: "ASTNode \<Rightarrow> SchemaNodeUnion \<Rightarrow> bool \<Rightarrow> error + ValidationRule list" where
  "parseRules doc schema required =
     bind (applyFactories factories schema) (\<lambda>localRules.
       case schema of
         ArraySchemaNode n \<Rightarrow>
           bind (items n) (\<lambda>its.
             case its of
               None \<Rightarrow> Inr (if required then Required # localRules else localRules)
             | Some itemsOrRef \<Rightarrow>
                 bind (resolveSchema doc itemsOrRef) (\<lambda>itemsSchema.
                   case itemsSchema of
                     None \<Rightarrow> Inr []
                   | Some its' \<Rightarrow>
                       bind (applyFactories factories its') (\<lambda>itemRules.
                         Inr (if required then Required # (localRules @ itemRules)
                              else localRules @ itemRules))))
       | _ \<Rightarrow> Inr (if required then Required # localRules else localRules))"

definition parseObjectRules :: "SchemaNodeUnion \<Rightarrow> error + ObjectValidationRule list" where
  "parseObjectRules def = applyFactories objectFactories def"

text \<open>The rules that bound a number from above, and from below.\<close>

definition isUpperBound :: "ValidationRule \<Rightarrow> bool" where
  "isUpperBound r = (ruleId r = ''number-lt'' \<or> ruleId r = ''number-lte'')"

definition isLowerBound :: "ValidationRule \<Rightarrow> bool" where
  "isLowerBound r = (ruleId r = ''number-gt'' \<or> ruleId r = ''number-gte'')"

text \<open>
  The truthiness of an optional flag in the words of the language, to state what the
  factories do with \<^verbatim>\<open>exclusiveMinimum\<close>: an absent property, \<^verbatim>\<open>false\<close>, zero, \<open>NaN\<close>, the
  empty string and \<^verbatim>\<open>null\<close> are falsy, every other literal is truthy.
\<close>

definition flagHolds :: "ASTNode option \<Rightarrow> bool" where
  "flagHolds v =
     (case v of
        Some (Literal (LBoolean b)) \<Rightarrow> b
      | Some (Literal (LNumber x)) \<Rightarrow> x \<noteq> Finite 0 \<and> x \<noteq> NaN
      | Some (Literal (LString s)) \<Rightarrow> s \<noteq> []
      | _ \<Rightarrow> False)"

text \<open>Schemas used to run the rule factories on concrete inputs.\<close>

definition numSchema :: ASTNode where
  "numSchema = Object
     [(''type'', Literal (LString ''number'')),
      (''maximum'', Literal (LNumber (Finite 10))),
      (''minimum'', Literal (LNumber (Finite 1))),
      (''exclusiveMaximum'', Literal (LBoolean True))]"

definition numSchema2 :: ASTNode where
  "numSchema2 = Object
     [(''type'', Literal (LString ''integer'')),
      (''maximum'', Literal (LNumber (Finite 10))),
      (''exclusiveMinimum'', Literal (LBoolean True))]"

definition numSchema3 :: ASTNode where
  "numSchema3 = Object
     [(''type'', Literal (LString ''number'')),
      (''maximum'', Literal (LNumber (Finite 10))),
      (''minimum'', Literal (LNumber (Finite 1))),
      (''exclusiveMinimum'', Literal (LString ''false''))]"

definition closedObject :: ASTNode where
  "closedObject = Object
     [(''type'', Literal (LString ''object'')),
      (''additionalProperties'', Literal (LBoolean False))]"

definition mapObject :: ASTNode where
  "mapObject = Object
     [(''type'', Literal (LString ''object'')),
      (''additionalProperties'', Object [(''type'', Literal (LString ''string''))])]"

section \<open>Host functions taken as parameters\<close>

text \<open>
  The parser calls functions that are not part of its sources: the language's
  \<^verbatim>\<open>Number\<close> (string to number, \<open>NaN\<close> when the string is not a numeric literal) and the
  packages \<^verbatim>\<open>case\<close> (\<^verbatim>\<open>camel\<close>, \<^verbatim>\<open>kebab\<close>, \<^verbatim>\<open>pascal\<close>), \<^verbatim>\<open>pluralize\<close> (\<^verbatim>\<open>singular\<close>) and
  \<^verbatim>\<open>semver\<close> (\<^verbatim>\<open>major\<close>). The model takes each of them as a parameter of the functions
  that call it, so that every statement holds for whatever these functions compute.

  To run the model on concrete inputs, \<open>decimalNumber\<close> stands for \<^verbatim>\<open>Number\<close>: it agrees
  with it on strings of one to fifteen decimal digits, whose value is exact, and is
  \<open>NaN\<close> on every other string (where \<^verbatim>\<open>Number\<close> may differ, as on \<^verbatim>\<open>2.5\<close>); it is only
  applied to such digit strings and to strings that are no numeric literal.
\<close>

definition digitOf :: "char \<Rightarrow> int option" where
  "digitOf c = map_of (zip ''0123456789'' [0, 1, 2, 3, 4, 5, 6, 7, 8, 9]) c"

fun decimalValue :: "int \<Rightarrow> string \<Rightarrow> int option" where
  "decimalValue acc [] = Some acc"
| "decimalValue acc (c # cs) =
     (case digitOf c of None \<Rightarrow> None | Some d \<Rightarrow> decimalValue (10 * acc + d) cs)"

definition decimalNumber :: "string \<Rightarrow> jsnum" where
  "decimalNumber s =
     (if s = [] \<or> 15 < length s then NaN
      else (case decimalValue 0 s of None \<Rightarrow> NaN | Some n \<Rightarrow> Finite (of_int n)))"

section \<open>HTTP projection: the success status code\<close>

datatype PrimaryKey = NumericKey jsnum | DefaultKey

text \<open>\<^verbatim>\<open>responses.keys.filter((c) => c.startsWith('2'))[0]\<close>\<close>

definition firstSuccessKey :: "ASTNode \<Rightarrow> string option" where
  "firstSuccessKey responses =
     (case filter (\<lambda>c. startsWith c ''2'') (keys responses) of
        [] \<Rightarrow> None
      | c # cs \<Rightarrow> Some c)"

text \<open>
  \<^verbatim>\<open>operation.responses\<close> is read without a check: on an operation without responses the
  first access raises a type error. \<^verbatim>\<open>Number(undefined)\<close> is \<open>NaN\<close>.
\<close>

definition parsePrimaryResponseKey ::
  "(string \<Rightarrow> jsnum) \<Rightarrow> ASTNode \<Rightarrow> error + PrimaryKey option" where
  "parsePrimaryResponseKey Number operation =
     (case getChild operation ''responses'' of
        None \<Rightarrow> Inl TypeError
      | Some responses \<Rightarrow>
          (let hasDefault = (getChildOrRef responses ''default'' \<noteq> None);
               code = firstSuccessKey responses
           in if code = Some ''default'' then Inr (Some DefaultKey)
              else (let n = (case code of None \<Rightarrow> NaN | Some c \<Rightarrow> Number c)
                    in if n \<noteq> NaN then Inr (Some (NumericKey n))
                       else if hasDefault then Inr (Some DefaultKey)
                       else Inr None)))"

text \<open>\<^verbatim>\<open>response.content?.keys?.length\<close> as a condition.\<close>

definition declaresContent :: "ASTNode \<Rightarrow> bool" where
  "declaresContent response =
     (case getChild response ''content'' of
        None \<Rightarrow> False
      | Some content \<Rightarrow> keys content \<noteq> [])"

definition parseResponseCode ::
  "(string \<Rightarrow> jsnum) \<Rightarrow> ASTNode \<Rightarrow> string \<Rightarrow> ASTNode \<Rightarrow> error + jsnum" where
  "parseResponseCode Number doc verb operation =
     bind (parsePrimaryResponseKey Number operation) (\<lambda>primary.
       case primary of
         Some (NumericKey n) \<Rightarrow> Inr n
       | Some DefaultKey \<Rightarrow>
           (case getChild operation ''responses'' of
              None \<Rightarrow> Inl TypeError
            | Some responses \<Rightarrow>
                (case getChildOrRef responses ''default'' of
                   None \<Rightarrow> Inr (Finite 204)
                 | Some res \<Rightarrow>
                     bind (resolve doc res) (\<lambda>response.
                       if declaresContent response then
                         (if verb = ''delete'' then Inr (Finite 202)
                          else if verb = ''options'' then Inr (Finite 204)
                          else if verb = ''post'' then Inr (Finite 201)
                          else Inr (Finite 200))
                       else Inr (Finite 204))))
       | None \<Rightarrow> Inr (Finite 200))"

text \<open>Operations used to run the success-code derivation.\<close>

definition jsonBody :: ASTNode where
  "jsonBody = Object [(''content'', Object [(''application/json'', Object [])])]"

definition defaultOnlyOperation :: ASTNode where
  "defaultOnlyOperation = Object [(''responses'', Object [(''default'', jsonBody)])]"

definition createdOperation :: ASTNode where
  "createdOperation = Object
     [(''responses'', Object [(''404'', Object []), (''201'', jsonBody), (''200'', jsonBody)])]"

section \<open>Objects of the host language and extension metadata\<close>

text \<open>
  An ordinary object of the host language, as built by \<^verbatim>\<open>{...acc, [key]: item}\<close>: the
  list holds the properties in creation order, with distinct keys. Writing an existing
  key replaces the value in place, writing a new key appends. Enumeration
  (\<^verbatim>\<open>Object.keys\<close>) lists the keys that are array indices (canonical decimal numerals up
  to \<open>2^32 - 2\<close>) first, in ascending numeric order, and then the other keys in creation
  order.
\<close>

type_synonym 'a jsobject = "(string \<times> 'a) list"

definition objSet :: "'a jsobject \<Rightarrow> string \<Rightarrow> 'a \<Rightarrow> 'a jsobject" where
  "objSet obj k v =
     (if k \<in> fst ` set obj then map (\<lambda>(k', v'). if k' = k then (k', v) else (k', v')) obj
      else obj @ [(k, v)])"

definition arrayIndex :: "string \<Rightarrow> int option" where
  "arrayIndex k =
     (if k = [] \<or> 10 < length k \<or> (hd k = CHR ''0'' \<and> k \<noteq> ''0'') then None
      else (case decimalValue 0 k of
              None \<Rightarrow> None
            | Some n \<Rightarrow> if n \<le> 4294967294 then Some n else None))"

definition objectEntries :: "'a jsobject \<Rightarrow> (string \<times> 'a) list" where
  "objectEntries obj =
     sort_key (\<lambda>(k, v). the (arrayIndex k)) (filter (\<lambda>(k, v). arrayIndex k \<noteq> None) obj)
     @ filter (\<lambda>(k, v). arrayIndex k = None) obj"

datatype json = JLiteral literal | JObject "(string \<times> json) list" | JArray "json list"

text \<open>\<^verbatim>\<open>children.reduce((acc, child) => ({ ...acc, [key]: value }), {})\<close>\<close>

definition fromEntries :: "(string \<times> 'a) list \<Rightarrow> 'a jsobject" where
  "fromEntries entries = foldl (\<lambda>acc (k, v). objSet acc k v) [] entries"

primrec toJson :: "ASTNode \<Rightarrow> json" where
  "toJson (Literal v) = JLiteral v"
| "toJson (Object children) = JObject (fromEntries (map (map_prod id toJson) children))"
| "toJson (Array children) = JArray (map toJson children)"

type_synonym Meta = "(string \<times> json) list"

definition parseMeta :: "ASTNode \<Rightarrow> Meta option" where
  "parseMeta node =
     (case node of
        Object children \<Rightarrow>
          (let meta = map (\<lambda>(k, v). (substring k 2, toJson v))
                        (filter (\<lambda>(k, v). startsWith k ''x-'') children)
           in if meta \<noteq> [] then Some meta else None)
      | _ \<Rightarrow> None)"

section \<open>Security projection\<close>

datatype SecuritySchemeNode =
    HttpSecuritySchemeNode ASTNode
  | ApiKeySecuritySchemeNode ASTNode
  | OAuth2SecuritySchemeNode ASTNode
  | OpenIdConnectSecuritySchemeNode ASTNode

definition toSecuritySchemeOrRef ::
  "ASTNode option \<Rightarrow> error + SecuritySchemeNode OrRef option" where
  "toSecuritySchemeOrRef v =
     (case v of
        None \<Rightarrow> Inr None
      | Some val \<Rightarrow>
          if isRef (Some val) then Inr (Some (RefNode val))
          else (case val of
                  Object children \<Rightarrow>
                    (case map_of children ''type'' of
                       Some (Literal t) \<Rightarrow>
                         if t = LString ''apiKey'' then Inr (Some (Node (ApiKeySecuritySchemeNode val)))
                         else if t = LString ''http'' then Inr (Some (Node (HttpSecuritySchemeNode val)))
                         else if t = LString ''oauth2'' then Inr (Some (Node (OAuth2SecuritySchemeNode val)))
                         else if t = LString ''openIdConnect''
                           then Inr (Some (Node (OpenIdConnectSecuritySchemeNode val)))
                         else Inl UnknownSecuritySchemeType
                     | _ \<Rightarrow> Inl UnknownSecuritySchemeType)
                | _ \<Rightarrow> Inl UnknownSecuritySchemeType))"

datatype OAuth2Scope = OAuth2Scope (scopeName: string) (scopeDescription: "literal option")

text \<open>The fields of a flow, in this order: authorization URL, refresh URL, token URL, scopes.\<close>

datatype OAuth2Flow =
    OAuth2AuthorizationCodeFlow "literal option" "literal option" "literal option" "OAuth2Scope list"
  | OAuth2ClientCredentialsFlow "literal option" "literal option" "OAuth2Scope list"
  | OAuth2ImplicitFlow "literal option" "literal option" "OAuth2Scope list"
  | OAuth2PasswordFlow "literal option" "literal option" "OAuth2Scope list"

text \<open>
  A security scheme of the output: its name (the requirement key), then for an API key
  the description, the parameter name and the location, for OAuth2 the description and
  the flows, and last the extension metadata.
\<close>

datatype SecurityScheme =
    BasicScheme string "Meta option"
  | ApiKeyScheme string "literal option" "literal option" "literal option" "Meta option"
  | OAuth2Scheme string "literal option" "OAuth2Flow list" "Meta option"

fun schemeName :: "SecurityScheme \<Rightarrow> string" where
  "schemeName (BasicScheme name m) = name"
| "schemeName (ApiKeyScheme name d p i m) = name"
| "schemeName (OAuth2Scheme name d fs m) = name"

text \<open>
  \<^verbatim>\<open>literal(view.key)\<close> and \<^verbatim>\<open>parseDescriptionOnly(view.description)\<close> are both
  \<open>optValue\<close>: undefined for an absent key, else the value of the literal.
\<close>

definition parseScopes :: "ASTNode option \<Rightarrow> error + OAuth2Scope list" where
  "parseScopes scopes =
     (case scopes of
        None \<Rightarrow> Inl TypeError
      | Some sc \<Rightarrow> mapM (\<lambda>k. bind (optValue sc k) (\<lambda>d. Inr (OAuth2Scope k d))) (keys sc))"

definition parseOAuth2Flows :: "ASTNode option \<Rightarrow> error + OAuth2Flow list" where
  "parseOAuth2Flows flows =
     (case flows of
        None \<Rightarrow> Inl TypeError
      | Some fl \<Rightarrow>
          bind (case getChild fl ''authorizationCode'' of
                  None \<Rightarrow> Inr []
                | Some flow \<Rightarrow>
                    bind (optValue flow ''authorizationUrl'') (\<lambda>a.
                    bind (optValue flow ''refreshUrl'') (\<lambda>r.
                    bind (optValue flow ''tokenUrl'') (\<lambda>t.
                    bind (parseScopes (getChild flow ''scopes'')) (\<lambda>s.
                      Inr [OAuth2AuthorizationCodeFlow a r t s]))))) (\<lambda>f1.
          bind (case getChild fl ''clientCredentials'' of
                  None \<Rightarrow> Inr []
                | Some flow \<Rightarrow>
                    bind (optValue flow ''refreshUrl'') (\<lambda>r.
                    bind (optValue flow ''tokenUrl'') (\<lambda>t.
                    bind (parseScopes (getChild flow ''scopes'')) (\<lambda>s.
                      Inr [OAuth2ClientCredentialsFlow r t s])))) (\<lambda>f2.
          bind (case getChild fl ''implicit'' of
                  None \<Rightarrow> Inr []
                | Some flow \<Rightarrow>
                    bind (optValue flow ''authorizationUrl'') (\<lambda>a.
                    bind (optValue flow ''refreshUrl'') (\<lambda>r.
                    bind (parseScopes (getChild flow ''scopes'')) (\<lambda>s.
                      Inr [OAuth2ImplicitFlow a r s])))) (\<lambda>f3.
          bind (case getChild fl ''password'' of
                  None \<Rightarrow> Inr []
                | Some flow \<Rightarrow>
                    bind (optValue flow ''refreshUrl'') (\<lambda>r.
                    bind (optValue flow ''tokenUrl'') (\<lambda>t.
                    bind (parseScopes (getChild flow ''scopes'')) (\<lambda>s.
                      Inr [OAuth2PasswordFlow r t s])))) (\<lambda>f4.
            Inr (f1 @ f2 @ f3 @ f4))))))"

definition parseHttpSecurity :: "ASTNode \<Rightarrow> string \<Rightarrow> error + SecurityScheme" where
  "parseHttpSecurity definition name = Inr (BasicScheme name (parseMeta definition))"

definition parseApiKeySecurity :: "ASTNode \<Rightarrow> string \<Rightarrow> error + SecurityScheme" where
  "parseApiKeySecurity definition name =
     bind (optValue definition ''description'') (\<lambda>d.
     bind (optValue definition ''name'') (\<lambda>p.
     bind (optValue definition ''in'') (\<lambda>i.
       Inr (ApiKeyScheme name d p i (parseMeta definition)))))"

definition parseOAuth2Security :: "ASTNode \<Rightarrow> string \<Rightarrow> error + SecurityScheme" where
  "parseOAuth2Security definition name =
     bind (optValue definition ''description'') (\<lambda>d.
     bind (parseOAuth2Flows (getChild definition ''flows'')) (\<lambda>fs.
       Inr (OAuth2Scheme name d fs (parseMeta definition))))"

text \<open>\<^verbatim>\<open>this.schema.components?.securitySchemes\<close>\<close>

definition securitySchemes :: "ASTNode \<Rightarrow> ASTNode option" where
  "securitySchemes doc =
     (case getChild doc ''components'' of
        None \<Rightarrow> None
      | Some components \<Rightarrow> getChild components ''securitySchemes'')"

text \<open>\<^verbatim>\<open>securitySchemes?.read(key)\<close>\<close>

definition readSecurityScheme :: "ASTNode \<Rightarrow> string \<Rightarrow> error + SecuritySchemeNode OrRef option" where
  "readSecurityScheme doc key =
     (case securitySchemes doc of
        None \<Rightarrow> Inr None
      | Some index \<Rightarrow> toSecuritySchemeOrRef (getProperty index key))"

text \<open>
  The function mapped over the keys of one requirement: the scheme the key contributes,
  or nothing. \<^verbatim>\<open>requirements.read(key)\<close> is undefined when the value under the key is
  not an array, and the key is then dropped; an array, even an empty one, is truthy.
\<close>

definition parseSecurityScheme :: "ASTNode \<Rightarrow> ASTNode \<Rightarrow> string \<Rightarrow> error + SecurityScheme option" where
  "parseSecurityScheme doc requirements key =
     bind (readSecurityScheme doc key) (\<lambda>definition.
       if getArray requirements key = None \<or> definition = None then Inr None
       else (case definition of
               Some (Node (HttpSecuritySchemeNode d)) \<Rightarrow>
                 bind (parseHttpSecurity d key) (\<lambda>s. Inr (Some s))
             | Some (Node (ApiKeySecuritySchemeNode d)) \<Rightarrow>
                 bind (parseApiKeySecurity d key) (\<lambda>s. Inr (Some s))
             | Some (Node (OAuth2SecuritySchemeNode d)) \<Rightarrow>
                 bind (parseOAuth2Security d key) (\<lambda>s. Inr (Some s))
             | _ \<Rightarrow> Inr None))"

text \<open>The function mapped over the requirements: one security option per requirement.\<close>

definition parseSecurityOption :: "ASTNode \<Rightarrow> ASTNode \<Rightarrow> error + SecurityScheme list" where
  "parseSecurityOption doc requirements =
     bind (mapM (parseSecurityScheme doc requirements) (keys requirements)) (\<lambda>schemes.
       Inr (List.map_filter id schemes))"

definition parseSecurity :: "ASTNode \<Rightarrow> ASTNode \<Rightarrow> error + SecurityScheme list list" where
  "parseSecurity doc operation =
     (let defaultSecurity = getArray doc ''security'';
          operationSecurity = getArray operation ''security'';
          security =
            (case operationSecurity of
               Some s \<Rightarrow> s
             | None \<Rightarrow> (case defaultSecurity of Some s \<Rightarrow> s | None \<Rightarrow> []))
      in mapM (parseSecurityOption doc) security)"

text \<open>
  The schemes the output can represent: a key contributes a scheme when its definition
  is an \<^verbatim>\<open>http\<close>, \<^verbatim>\<open>apiKey\<close> or \<^verbatim>\<open>oauth2\<close> scheme, and nothing when it is an
  \<^verbatim>\<open>openIdConnect\<close> scheme, a reference, or missing.
\<close>

fun representable :: "error + SecuritySchemeNode OrRef option \<Rightarrow> bool" where
  "representable (Inr (Some (Node (HttpSecuritySchemeNode d)))) = True"
| "representable (Inr (Some (Node (ApiKeySecuritySchemeNode d)))) = True"
| "representable (Inr (Some (Node (OAuth2SecuritySchemeNode d)))) = True"
| "representable _ = False"

text \<open>A document with three schemes and a document-level requirement.\<close>

definition secDoc :: ASTNode where
  "secDoc = Object
     [(''security'', Array [Object [(''basic'', Array [])]]),
      (''components'', Object
        [(''securitySchemes'', Object
           [(''basic'', Object [(''type'', Literal (LString ''http''))]),
            (''key'', Object
               [(''type'', Literal (LString ''apiKey'')),
                (''name'', Literal (LString ''X-Key'')),
                (''in'', Literal (LString ''header''))]),
            (''oidc'', Object
               [(''type'', Literal (LString ''openIdConnect'')),
                (''openIdConnectUrl'', Literal (LString ''https://id.example''))])])])]"

definition securedRequirement :: ASTNode where
  "securedRequirement = Object
     [(''oidc'', Array []), (''key'', Array []), (''basic'', Literal (LString ''x''))]"

definition securedOperation :: ASTNode where
  "securedOperation = Object [(''security'', Array [securedRequirement])]"

section \<open>The intermediate representation\<close>

text \<open>
  The entities of the output, without their source ranges. A description is the list of
  the scalars \<^verbatim>\<open>parseDescription\<close> returns (none, one, or summary and description).
\<close>

record TypedValue =
  tv_typeName :: string
  tv_isPrimitive :: bool
  tv_isArray :: bool
  tv_default :: "literal option"
  tv_constant :: "literal option"
  tv_rules :: "ValidationRule list"

record Enum =
  enum_name :: string
  enum_values :: "literal list"

record Property =
  prop_name :: string
  prop_description :: "literal option"
  prop_typeName :: string
  prop_isPrimitive :: bool
  prop_isArray :: bool
  prop_default :: "literal option"
  prop_constant :: "literal option"
  prop_rules :: "ValidationRule list"
  prop_meta :: "Meta option"

record Type =
  type_name :: string
  type_properties :: "Property list"
  type_description :: "literal option"
  type_rules :: "ObjectValidationRule list"
  type_meta :: "Meta option"

record Union =
  union_name :: string
  union_members :: "TypedValue list"
  union_meta :: "Meta option"

record Parameter =
  param_name :: literal
  param_description :: "literal list"
  param_typeName :: string
  param_isPrimitive :: bool
  param_isArray :: bool
  param_default :: "literal option"
  param_rules :: "ValidationRule list"
  param_meta :: "Meta option"

record Method =
  method_name :: literal
  method_security :: "SecurityScheme list list"
  method_parameters :: "Parameter list"
  method_description :: "literal list"
  method_returnType :: "TypedValue option"
  method_meta :: "Meta option"

record HttpParameter =
  httpParam_name :: literal
  httpParam_in :: literal
  httpParam_array :: "string option"

record HttpMethod =
  httpMethod_name :: literal
  httpMethod_verb :: string
  httpMethod_parameters :: "HttpParameter list"
  httpMethod_successCode :: jsnum

record HttpPath =
  httpPath_path :: string
  httpPath_methods :: "HttpMethod list"

record Interface =
  interface_name :: string
  interface_methods :: "Method list"
  interface_http :: "HttpPath list"

record Service =
  service_title :: string
  service_majorVersion :: jsnum
  service_interfaces :: "Interface list"
  service_types :: "Type list"
  service_enums :: "Enum list"
  service_unions :: "Union list"
  service_meta :: "Meta option"

datatype Violation =
    CookieNotSupported
  | ParameterStyleNotSupported string
  | MultipleContentTypes

section \<open>The parser object\<close>

text \<open>
  The mutable fields of \<^verbatim>\<open>OAS3Parser\<close>: the three name tables the synthesizer appends to
  and the diagnostics. Every method that may write them takes the state and returns the
  new one; a \<^verbatim>\<open>throw\<close> abandons the state with the parse.
\<close>

record pstate =
  enums :: "Enum list"
  anonymousTypes :: "Type list"
  unions :: "Union list"
  violations :: "Violation list"

type_synonym 'a parser = "pstate \<Rightarrow> error + ('a \<times> pstate)"

definition returnS :: "'a \<Rightarrow> 'a parser" where
  "returnS x = (\<lambda>st. Inr (x, st))"

definition bindS :: "'a parser \<Rightarrow> ('a \<Rightarrow> 'b parser) \<Rightarrow> 'b parser" where
  "bindS m f = (\<lambda>st. case m st of Inl e \<Rightarrow> Inl e | Inr (x, st') \<Rightarrow> f x st')"

definition liftS :: "error + 'a \<Rightarrow> 'a parser" where
  "liftS m = (\<lambda>st. case m of Inl e \<Rightarrow> Inl e | Inr x \<Rightarrow> Inr (x, st))"

fun mapMS :: "('a \<Rightarrow> 'b parser) \<Rightarrow> 'a list \<Rightarrow> 'b list parser" where
  "mapMS f [] = returnS []"
| "mapMS f (x # xs) = bindS (f x) (\<lambda>y. bindS (mapMS f xs) (\<lambda>ys. returnS (y # ys)))"

definition pushEnum :: "Enum \<Rightarrow> unit parser" where
  "pushEnum e = (\<lambda>st. Inr ((), st\<lparr>enums := enums st @ [e]\<rparr>))"

definition pushAnonymousType :: "Type \<Rightarrow> unit parser" where
  "pushAnonymousType t = (\<lambda>st. Inr ((), st\<lparr>anonymousTypes := anonymousTypes st @ [t]\<rparr>))"

definition pushUnion :: "Union \<Rightarrow> unit parser" where
  "pushUnion u = (\<lambda>st. Inr ((), st\<lparr>unions := unions st @ [u]\<rparr>))"

definition pushViolation :: "Violation \<Rightarrow> unit parser" where
  "pushViolation v = (\<lambda>st. Inr ((), st\<lparr>violations := violations st @ [v]\<rparr>))"

text \<open>
  The packages \<^verbatim>\<open>case\<close>, \<^verbatim>\<open>pluralize\<close> and \<^verbatim>\<open>semver\<close>, the function \<^verbatim>\<open>Number\<close> and the
  conversion of a number to a string in a template literal, as one parameter. \<^verbatim>\<open>major\<close>
  throws on a string that is no version: nothing stands for that.
\<close>

record host =
  hostNumber :: "string \<Rightarrow> jsnum"
  hostString :: "jsnum \<Rightarrow> string"
  hostCamel :: "string \<Rightarrow> string"
  hostKebab :: "string \<Rightarrow> string"
  hostPascal :: "string \<Rightarrow> string"
  hostSingular :: "string \<Rightarrow> string"
  hostMajor :: "string \<Rightarrow> jsnum option"

text \<open>
  The overlay declares fields such as \<^verbatim>\<open>name\<close>, \<^verbatim>\<open>operationId\<close> and \<^verbatim>\<open>in\<close> as string
  literals (\<^verbatim>\<open>getLiteral<string>\<close>), but nothing checks the declaration: the value of
  such a field is whatever literal the document holds, and it is copied to the output as
  it is. Only where a value is handed to a string method or to a function of the string
  packages does the model require a string: a literal of another type raises a type
  error there. In a template literal every value is converted to a string.
\<close>

definition stringOf :: "literal \<Rightarrow> error + string" where
  "stringOf v = (case v of LString s \<Rightarrow> Inr s | _ \<Rightarrow> Inl TypeError)"

text \<open>\<^verbatim>\<open>view.key.value\<close> for a field declared present (\<^verbatim>\<open>!\<close>) and of string type.\<close>

definition requiredString :: "ASTNode \<Rightarrow> string \<Rightarrow> error + string" where
  "requiredString node key =
     (case getLiteral node key of
        None \<Rightarrow> Inl TypeError
      | Some n \<Rightarrow> bind (literalValue n) stringOf)"

text \<open>\<^verbatim>\<open>view.key.value\<close> for a field declared present (\<^verbatim>\<open>!\<close>), whatever its type.\<close>

definition requiredValue :: "ASTNode \<Rightarrow> string \<Rightarrow> error + literal" where
  "requiredValue node key =
     (case getLiteral node key of
        None \<Rightarrow> Inl TypeError
      | Some n \<Rightarrow> literalValue n)"

text \<open>\<^verbatim>\<open>`${v}`\<close>: the conversion of a literal to a string in a template literal.\<close>

definition templateString :: "host \<Rightarrow> literal \<Rightarrow> string" where
  "templateString h v =
     (case v of
        LString s \<Rightarrow> s
      | LNumber x \<Rightarrow> hostString h x
      | LBoolean b \<Rightarrow> (if b then ''true'' else ''false'')
      | LNull \<Rightarrow> ''null'')"

section \<open>The type, enum and union synthesizer\<close>

definition parseStringName :: "ASTNode \<Rightarrow> error + string" where
  "parseStringName node =
     bind (optValue node ''format'') (\<lambda>format.
       if format = Some (LString ''date'') then Inr ''date''
       else if format = Some (LString ''date-time'') then Inr ''date-time''
       else requiredString node ''type'')"

definition parseNumberName :: "ASTNode \<Rightarrow> error + string" where
  "parseNumberName node =
     bind (requiredString node ''type'') (\<lambda>type.
     bind (optValue node ''format'') (\<lambda>format.
       if type = ''integer'' then
         (if format = Some (LString ''int32'') then Inr ''integer''
          else if format = Some (LString ''int64'') then Inr ''long''
          else Inr type)
       else if type = ''number'' then
         (if format = Some (LString ''float'') then Inr ''float''
          else if format = Some (LString ''double'') then Inr ''double''
          else Inr type)
       else Inr type))"

text \<open>The descriptor of a named, non-primitive, non-array value.\<close>

definition namedType :: "string \<Rightarrow> ValidationRule list \<Rightarrow> TypedValue" where
  "namedType name rules =
     \<lparr>tv_typeName = name, tv_isPrimitive = False, tv_isArray = False,
      tv_default = None, tv_constant = None, tv_rules = rules\<rparr>"

text \<open>The descriptor of a primitive: name, \<^verbatim>\<open>default\<close> and \<^verbatim>\<open>const\<close> of the schema.\<close>

definition primitiveType :: "error + string \<Rightarrow> ASTNode \<Rightarrow> ValidationRule list \<Rightarrow> error + TypedValue" where
  "primitiveType name node rules =
     bind name (\<lambda>typeName.
     bind (optValue node ''default'') (\<lambda>d.
     bind (optValue node ''const'') (\<lambda>c.
       Inr \<lparr>tv_typeName = typeName, tv_isPrimitive = True, tv_isArray = False,
            tv_default = d, tv_constant = c, tv_rules = rules\<rparr>)))"

definition enumOf :: "string \<Rightarrow> ASTNode list \<Rightarrow> error + Enum" where
  "enumOf name members =
     bind (mapM literalValue members) (\<lambda>vs. Inr \<lparr>enum_name = name, enum_values = vs\<rparr>)"

definition safeConcat :: "'a list option \<Rightarrow> 'a list option \<Rightarrow> 'a list option" where
  "safeConcat a b =
     (case a of
        Some xs \<Rightarrow> (case b of Some ys \<Rightarrow> Some (xs @ ys) | None \<Rightarrow> Some xs)
      | None \<Rightarrow> b)"

text \<open>
  \<^verbatim>\<open>this.resolve(subDef, OAS3.ObjectSchemaNode)\<close>: a reference is replaced by the node it
  points to, whatever that node is; an inline schema is kept.
\<close>

definition resolveObjectSchema :: "ASTNode \<Rightarrow> SchemaNodeUnion OrRef \<Rightarrow> error + ASTNode" where
  "resolveObjectSchema doc subDef =
     (case subDef of
        RefNode r \<Rightarrow> resolve doc (RefNode r)
      | Node s \<Rightarrow> Inr (schemaNode s))"

text \<open>\<^verbatim>\<open>new Set(required?.map((r) => r.value) || [])\<close>\<close>

definition requiredSet :: "ASTNode list option \<Rightarrow> error + literal list" where
  "requiredSet required =
     (case required of None \<Rightarrow> Inr [] | Some rs \<Rightarrow> mapM literalValue rs)"

definition componentPrefix :: string where
  "componentPrefix = ''#/components/schemas/''"

text \<open>The property object pushed by the loop of \<^verbatim>\<open>parseProperties\<close>, after \<^verbatim>\<open>parseType\<close>.\<close>

definition makeProperty ::
  "ASTNode \<Rightarrow> string \<Rightarrow> SchemaNodeUnion \<Rightarrow> TypedValue \<Rightarrow> bool \<Rightarrow> error + Property" where
  "makeProperty doc name resolvedProp x required =
     bind (optValue (schemaNode resolvedProp) ''description'') (\<lambda>d.
     bind (parseRules doc resolvedProp required) (\<lambda>rules.
       Inr \<lparr>prop_name = name, prop_description = d, prop_typeName = tv_typeName x,
            prop_isPrimitive = tv_isPrimitive x, prop_isArray = tv_isArray x,
            prop_default = (if tv_isPrimitive x then tv_default x else None),
            prop_constant = (if tv_isPrimitive x then tv_constant x else None),
            prop_rules = rules, prop_meta = parseMeta (schemaNode resolvedProp)\<rparr>))"

text \<open>
  The names of the synthesized entities: \<^verbatim>\<open>camel(`${parentName}_${singular(localName)}`)\<close>
  for an inline enum and \<^verbatim>\<open>camel(`${parentName}_${localName}`)\<close> for an inline object or
  union.
\<close>

definition inlineEnumName :: "host \<Rightarrow> literal \<Rightarrow> literal \<Rightarrow> error + string" where
  "inlineEnumName h parentName localName =
     bind (stringOf localName) (\<lambda>local.
       Inr (hostCamel h (templateString h parentName @ ''_'' @ hostSingular h local)))"

definition anonymousName :: "host \<Rightarrow> literal \<Rightarrow> literal \<Rightarrow> string" where
  "anonymousName h parentName localName =
     hostCamel h (templateString h parentName @ ''_'' @ templateString h localName)"

text \<open>
  \<^verbatim>\<open>parseType\<close> and \<^verbatim>\<open>parseProperties\<close> call each other, and through references they can
  call themselves without end; the host then raises a range error when the call stack is
  exhausted. The first argument bounds the depth of the calls: each call passes one less
  to the calls it makes, and a call at depth zero raises the range error.
\<close>

fun parseType ::
    "nat \<Rightarrow> host \<Rightarrow> ASTNode \<Rightarrow> SchemaNodeUnion OrRef \<Rightarrow> literal \<Rightarrow> literal \<Rightarrow> TypedValue parser"
  and parseProperties ::
    "nat \<Rightarrow> host \<Rightarrow> ASTNode \<Rightarrow> ASTNode option \<Rightarrow> ASTNode list option \<Rightarrow>
     SchemaNodeUnion OrRef list option \<Rightarrow> string \<Rightarrow> Property list parser"
where
  "parseType 0 h doc schemaOrRef localName parentName = (\<lambda>st. Inl RangeError)"
| "parseType (Suc n) h doc (RefNode r) localName parentName =
     bindS (liftS (refValue r)) (\<lambda>ref.
     bindS (liftS (resolveSchema doc (RefNode r))) (\<lambda>resolved.
       case resolved of
         None \<Rightarrow> (\<lambda>st. Inl (CannotResolveReferenceTo ref))
       | Some schema \<Rightarrow>
           if startsWith ref componentPrefix then
             (case schema of
                ObjectSchemaNode node \<Rightarrow>
                  bindS (liftS (parseRules doc schema False)) (\<lambda>rules.
                    returnS (namedType (substring ref (length componentPrefix)) rules))
              | StringSchemaNode node \<Rightarrow>
                  (case getArray node ''enum'' of
                      Some members \<Rightarrow>
                        bindS (liftS (enumOf (substring ref (length componentPrefix)) members)) (\<lambda>en.
                        bindS (pushEnum en) (\<lambda>u.
                        bindS (liftS (parseRules doc schema False)) (\<lambda>rules.
                          returnS (namedType (substring ref (length componentPrefix)) rules))))
                    | None \<Rightarrow> parseType n h doc (Node schema) localName parentName)
              | _ \<Rightarrow> parseType n h doc (Node schema) localName parentName)
           else
             bindS (liftS (parseRules doc schema False)) (\<lambda>rules.
               returnS (namedType ref rules))))"
| "parseType (Suc n) h doc (Node schema) localName parentName =
     bindS (liftS (parseRules doc schema False)) (\<lambda>rules.
       case schema of
         StringSchemaNode node \<Rightarrow>
           (case getArray node ''enum'' of
               Some members \<Rightarrow>
                 bindS (liftS (inlineEnumName h parentName localName)) (\<lambda>enumName.
                 bindS (liftS (enumOf enumName members)) (\<lambda>en.
                 bindS (pushEnum en) (\<lambda>u.
                   returnS (namedType enumName rules))))
             | None \<Rightarrow> liftS (primitiveType (parseStringName node) node rules))
       | NumberSchemaNode node \<Rightarrow> liftS (primitiveType (parseNumberName node) node rules)
       | BooleanSchemaNode node \<Rightarrow> liftS (primitiveType (requiredString node ''type'') node rules)
       | ArraySchemaNode node \<Rightarrow>
           bindS (liftS (items node)) (\<lambda>its.
             case its of
               None \<Rightarrow> (\<lambda>st. Inl ExpectedArrayItems)
             | Some itemsOrRef \<Rightarrow>
                 bindS (parseType n h doc itemsOrRef localName parentName) (\<lambda>x.
                   returnS \<lparr>tv_typeName = tv_typeName x, tv_isPrimitive = tv_isPrimitive x,
                            tv_isArray = True, tv_default = None, tv_constant = None,
                            tv_rules = rules\<rparr>))
       | ObjectSchemaNode node \<Rightarrow>
           bindS (liftS (oneOf node)) (\<lambda>alternatives.
             case alternatives of
               Some members \<Rightarrow>
                 bindS (mapMS (\<lambda>subDef. parseType n h doc subDef localName parentName) members)
                   (\<lambda>ms.
                 bindS (pushUnion \<lparr>union_name = anonymousName h parentName localName,
                                   union_members = ms, union_meta = parseMeta node\<rparr>) (\<lambda>u.
                   returnS (namedType (anonymousName h parentName localName) rules)))
             | None \<Rightarrow>
                 bindS (liftS (allOf node)) (\<lambda>branches.
                 bindS (parseProperties n h doc (getChild node ''properties'')
                          (getArray node ''required'') branches
                          (anonymousName h parentName localName)) (\<lambda>props.
                 bindS (liftS (optValue node ''description'')) (\<lambda>d.
                 bindS (liftS (parseObjectRules schema)) (\<lambda>objectRules.
                 bindS (pushAnonymousType
                          \<lparr>type_name = anonymousName h parentName localName,
                           type_properties = props, type_description = d, type_rules = objectRules,
                           type_meta = None\<rparr>) (\<lambda>u.
                   returnS (namedType (anonymousName h parentName localName) rules))))))))"
| "parseProperties 0 h doc properties required branches parentName = (\<lambda>st. Inl RangeError)"
| "parseProperties (Suc n) h doc properties required branches parentName =
     (case branches of
        Some subDefs \<Rightarrow>
          bindS (mapMS (\<lambda>subDef.
                   bindS (liftS (resolveObjectSchema doc subDef)) (\<lambda>resolved.
                     parseProperties n h doc (getChild resolved ''properties'')
                       (safeConcat (getArray resolved ''required'') required) None parentName))
                  subDefs) (\<lambda>pss.
            returnS (concat pss))
      | None \<Rightarrow>
          bindS (liftS (requiredSet required)) (\<lambda>requiredNames.
            case properties of
              None \<Rightarrow> returnS []
            | Some index \<Rightarrow>
                bindS (mapMS (\<lambda>name.
                         bindS (liftS (toSchemaOrRef (getProperty index name))) (\<lambda>prop.
                           case prop of
                             None \<Rightarrow> returnS None
                           | Some p \<Rightarrow>
                               bindS (liftS (resolveSchema doc p)) (\<lambda>resolvedProp.
                                 case resolvedProp of
                                   None \<Rightarrow> (\<lambda>st. Inl CannotResolveReference)
                                 | Some rp \<Rightarrow>
                                     bindS (parseType n h doc p (LString name) (LString parentName)) (\<lambda>x.
                                     bindS (liftS (makeProperty doc name rp x
                                              (LString name \<in> set requiredNames))) (\<lambda>property.
                                       returnS (Some property))))))
                        (keys index)) (\<lambda>props.
                  returnS (List.map_filter id props))))"

section \<open>Parameters, request bodies and return types\<close>

text \<open>\<^verbatim>\<open>view.parameters\<close> of a path item and of an operation.\<close>

definition parametersOf :: "ASTNode \<Rightarrow> error + ASTNode OrRef list option" where
  "parametersOf node =
     (case getProperty node ''parameters'' of
        None \<Rightarrow> Inr None
      | Some (Array children) \<Rightarrow>
          Inr (Some (map (\<lambda>v. if isRef (Some v) then RefNode v else Node v) children))
      | Some _ \<Rightarrow> Inl ValueIsNotAnArray)"

text \<open>\<^verbatim>\<open>operation.operationId?.value || fallback\<close>\<close>

definition operationIdOr :: "string \<Rightarrow> ASTNode \<Rightarrow> error + literal" where
  "operationIdOr fallback operation =
     bind (optValue operation ''operationId'') (\<lambda>v.
       case v of
         None \<Rightarrow> Inr (LString fallback)
       | Some l \<Rightarrow> Inr (if truthy l then l else LString fallback))"

definition parseDescription :: "ASTNode option \<Rightarrow> ASTNode option \<Rightarrow> error + literal list" where
  "parseDescription summary description =
     (case summary of
        Some s \<Rightarrow>
          (case description of
             Some d \<Rightarrow> bind (literalValue s) (\<lambda>sv. bind (literalValue d) (\<lambda>dv. Inr [sv, dv]))
           | None \<Rightarrow> bind (literalValue s) (\<lambda>sv. Inr [sv]))
      | None \<Rightarrow>
          (case description of
             Some d \<Rightarrow> bind (literalValue d) (\<lambda>dv. Inr [dv])
           | None \<Rightarrow> Inr []))"

definition getSchemaOrRef :: "ASTNode option \<Rightarrow> SchemaNodeUnion OrRef option parser" where
  "getSchemaOrRef content =
     (case content of
        None \<Rightarrow> returnS None
      | Some c \<Rightarrow>
          (case keys c of
             [] \<Rightarrow> returnS None
           | k # ks \<Rightarrow>
               bindS (if ks \<noteq> [] then pushViolation MultipleContentTypes else returnS ()) (\<lambda>u.
                 case getChild c k of
                   None \<Rightarrow> returnS None
                 | Some mediaType \<Rightarrow> liftS (toSchemaOrRef (getProperty mediaType ''schema'')))))"

definition parseBodyParamName :: "host \<Rightarrow> ASTNode \<Rightarrow> string" where
  "parseBodyParamName h operation =
     (case parseMeta operation of
        None \<Rightarrow> ''body''
      | Some meta \<Rightarrow>
          (case find (\<lambda>(k, v). hostKebab h k = ''codegen-request-body-name'') meta of
             Some (k, JLiteral (LString s)) \<Rightarrow> s
           | _ \<Rightarrow> ''body''))"

definition parseParameter :: "nat \<Rightarrow> host \<Rightarrow> ASTNode \<Rightarrow> ASTNode \<Rightarrow> literal \<Rightarrow> Parameter parser" where
  "parseParameter fuel h doc param methodName =
     bindS (liftS (toSchemaOrRef (getProperty param ''schema''))) (\<lambda>schema.
       case schema of
         None \<Rightarrow> (\<lambda>st. Inl UnexpectedUndefinedSchema)
       | Some unresolved \<Rightarrow>
           bindS (liftS (resolveSchema doc unresolved)) (\<lambda>r.
             case r of
               None \<Rightarrow> (\<lambda>st. Inl CannotResolveReference)
             | Some resolved \<Rightarrow>
                 bindS (liftS (requiredValue param ''name'')) (\<lambda>name.
                 bindS (parseType fuel h doc unresolved name methodName) (\<lambda>x.
                 bindS (liftS (parseDescription None (getLiteral param ''description''))) (\<lambda>d.
                 bindS (liftS (flagValue param ''required'')) (\<lambda>required.
                 bindS (liftS (parseRules doc resolved required)) (\<lambda>rules.
                   returnS \<lparr>param_name = name, param_description = d,
                            param_typeName = tv_typeName x, param_isPrimitive = tv_isPrimitive x,
                            param_isArray = tv_isArray x,
                            param_default = (if tv_isPrimitive x then tv_default x else None),
                            param_rules = rules, param_meta = parseMeta param\<rparr>)))))))"

definition parseRequestBody ::
  "nat \<Rightarrow> host \<Rightarrow> ASTNode \<Rightarrow> ASTNode OrRef option \<Rightarrow> literal \<Rightarrow> string \<Rightarrow> Parameter option parser" where
  "parseRequestBody fuel h doc bodyOrRef methodName paramName =
     (case bodyOrRef of
        None \<Rightarrow> returnS None
      | Some b \<Rightarrow>
          bindS (liftS (resolve doc b)) (\<lambda>body.
          bindS (getSchemaOrRef (getChild body ''content'')) (\<lambda>s.
            case s of
              None \<Rightarrow> returnS None
            | Some schemaOrRef \<Rightarrow>
                bindS (liftS (resolveSchema doc schemaOrRef)) (\<lambda>r.
                  case r of
                    None \<Rightarrow> returnS None
                  | Some schema \<Rightarrow>
                      bindS (parseType fuel h doc schemaOrRef (LString paramName) methodName) (\<lambda>x.
                      bindS (liftS (parseDescription None (getLiteral body ''description''))) (\<lambda>d.
                      bindS (liftS (flagValue body ''required'')) (\<lambda>required.
                      bindS (liftS (parseRules doc schema required)) (\<lambda>rules.
                        returnS (Some
                          \<lparr>param_name = LString paramName, param_description = d,
                           param_typeName = tv_typeName x, param_isPrimitive = tv_isPrimitive x,
                           param_isArray = tv_isArray x, param_default = None,
                           param_rules = rules, param_meta = parseMeta body\<rparr>)))))))))"

definition parseParameters ::
  "nat \<Rightarrow> host \<Rightarrow> ASTNode \<Rightarrow> ASTNode \<Rightarrow> ASTNode OrRef list \<Rightarrow> Parameter list parser" where
  "parseParameters fuel h doc operation commonParameters =
     bindS (liftS (parametersOf operation)) (\<lambda>own.
     bindS (liftS (mapM (resolveParam doc)
              (commonParameters @ (case own of None \<Rightarrow> [] | Some ps \<Rightarrow> ps)))) (\<lambda>resolved.
     bindS (mapMS (\<lambda>p. bindS (liftS (operationIdOr [] operation)) (\<lambda>methodName.
                          parseParameter fuel h doc p methodName))
              (List.map_filter id resolved)) (\<lambda>nonBodyParams.
     bindS (liftS (operationIdOr [] operation)) (\<lambda>methodName.
     bindS (parseRequestBody fuel h doc (getChildOrRef operation ''requestBody'') methodName
              (parseBodyParamName h operation)) (\<lambda>bodyParam.
       returnS (case bodyParam of
                  Some b \<Rightarrow> b # nonBodyParams
                | None \<Rightarrow> nonBodyParams))))))"

text \<open>The key \<^verbatim>\<open>`${primaryCode?.value}`\<close> under which the success response is read.\<close>

definition primaryKeyString :: "host \<Rightarrow> PrimaryKey option \<Rightarrow> string" where
  "primaryKeyString h primary =
     (case primary of
        Some (NumericKey n) \<Rightarrow> hostString h n
      | Some DefaultKey \<Rightarrow> ''default''
      | None \<Rightarrow> ''undefined'')"

definition responsePrefix :: string where
  "responsePrefix = ''#/components/responses/''"

definition parseReturnType :: "nat \<Rightarrow> host \<Rightarrow> ASTNode \<Rightarrow> ASTNode \<Rightarrow> TypedValue option parser" where
  "parseReturnType fuel h doc operation =
     bindS (liftS (parsePrimaryResponseKey (hostNumber h) operation)) (\<lambda>primaryCode.
       case getChild operation ''responses'' of
         None \<Rightarrow> (\<lambda>st. Inl TypeError)
       | Some responses \<Rightarrow>
           (case getChildOrRef responses (primaryKeyString h primaryCode) of
              None \<Rightarrow> returnS None
            | Some success \<Rightarrow>
                bindS (liftS (resolve doc success)) (\<lambda>response.
                bindS (liftS (case success of
                                RefNode r \<Rightarrow>
                                  bind (refValue r) (\<lambda>ref.
                                    Inr (if startsWith ref responsePrefix
                                         then substring ref (length responsePrefix) else []))
                              | Node n \<Rightarrow> Inr [])) (\<lambda>name.
                bindS (getSchemaOrRef (getChild response ''content'')) (\<lambda>s.
                  case s of
                    None \<Rightarrow> returnS None
                  | Some schemaOrRef \<Rightarrow>
                      bindS (liftS (if name \<noteq> [] then Inr (LString name)
                                    else operationIdOr [] operation)) (\<lambda>parentName.
                      bindS (parseType fuel h doc schemaOrRef (LString ''response'') parentName) (\<lambda>x.
                        returnS (Some x))))))))"

section \<open>Operations, methods and HTTP bindings\<close>

text \<open>
  \<^verbatim>\<open>pathItem[verb]\<close> for a key of the path item. The eight verbs are getters that wrap
  the operation; \<^verbatim>\<open>summary\<close>, \<^verbatim>\<open>description\<close> and \<^verbatim>\<open>servers\<close> are getters too and return
  something that is not an operation and has none of its fields, which the model renders
  as a view of a node without properties; every other key is not a member of the class
  and reads as undefined (members inherited from the base classes are not modelled).
  On a path item that is a reference and was not resolved, only \<^verbatim>\<open>$ref\<close> is a member.
\<close>

definition httpVerbs :: "string list" where
  "httpVerbs = [''get'', ''put'', ''post'', ''delete'', ''options'', ''head'', ''patch'', ''trace'']"

definition notAnOperation :: ASTNode where
  "notAnOperation = Literal LNull"

definition pathItemMember :: "ASTNode \<Rightarrow> string \<Rightarrow> error + ASTNode option" where
  "pathItemMember pathItem verb =
     (if verb \<in> set httpVerbs then Inr (getChild pathItem verb)
      else if verb = ''summary'' \<or> verb = ''description'' then
        Inr (map_option (\<lambda>n. notAnOperation) (getLiteral pathItem verb))
      else if verb = ''servers'' then
        Inr (map_option (\<lambda>n. notAnOperation) (getArray pathItem ''servers''))
      else if verb = ''parameters'' then
        bind (parametersOf pathItem) (\<lambda>s. Inr (map_option (\<lambda>n. notAnOperation) s))
      else Inr None)"

definition pathMember :: "ASTNode OrRef \<Rightarrow> string \<Rightarrow> error + ASTNode option" where
  "pathMember item verb =
     (case item of
        RefNode r \<Rightarrow>
          Inr (if verb = ''$ref'' then map_option (\<lambda>n. notAnOperation) (getLiteral r ''$ref'')
               else None)
      | Node pathItem \<Rightarrow> pathItemMember pathItem verb)"

fun viewNode :: "ASTNode OrRef \<Rightarrow> ASTNode" where
  "viewNode (RefNode r) = r"
| "viewNode (Node n) = n"

text \<open>
  \<^verbatim>\<open>operation.tags?.[0].value || path.split('/')[1]\<close>; the result is undefined for a path
  without a second segment.
\<close>

definition parseInterfaceName :: "string \<Rightarrow> ASTNode option \<Rightarrow> error + string option" where
  "parseInterfaceName path operation =
     (let fallback = (case split (CHR ''/'') path of a # b # rest \<Rightarrow> Some b | _ \<Rightarrow> None)
      in case operation of
           None \<Rightarrow> Inl TypeError
         | Some op \<Rightarrow>
             (case getArray op ''tags'' of
                None \<Rightarrow> Inr fallback
              | Some [] \<Rightarrow> Inl TypeError
              | Some (t # ts) \<Rightarrow>
                  bind (literalValue t) (\<lambda>v.
                  bind (stringOf v) (\<lambda>s. Inr (if s = [] then fallback else Some s)))))"

definition allOperations :: "ASTNode \<Rightarrow> error + (string \<times> string \<times> ASTNode option) list" where
  "allOperations doc =
     (case getChild doc ''paths'' of
        None \<Rightarrow> Inl TypeError
      | Some paths \<Rightarrow>
          bind (mapM (\<lambda>path.
                  case getChildOrRef paths path of
                    None \<Rightarrow> Inl TypeError
                  | Some item \<Rightarrow>
                      mapM (\<lambda>verb. bind (pathMember item verb) (\<lambda>operation.
                              Inr (path, verb, operation)))
                        (filter (\<lambda>verb. \<not> (verb = ''parameters'' \<or> startsWith verb ''x-''))
                           (keys (viewNode item))))
                (keys paths)) (\<lambda>ops. Inr (concat ops)))"

text \<open>A \<^verbatim>\<open>Set\<close> keeps the first insertion of each element, in insertion order.\<close>

definition insertionOrder :: "'a list \<Rightarrow> 'a list" where
  "insertionOrder xs = foldl (\<lambda>acc x. if x \<in> set acc then acc else acc @ [x]) [] xs"

definition parserInterfaceNames :: "ASTNode \<Rightarrow> error + string option list" where
  "parserInterfaceNames doc =
     bind (allOperations doc) (\<lambda>ops.
     bind (mapM (\<lambda>(path, verb, operation). parseInterfaceName path operation) ops) (\<lambda>names.
       Inr (insertionOrder names)))"

text \<open>The method object that \<^verbatim>\<open>parseMethods\<close> pushes for one operation.\<close>

definition parseMethod ::
  "nat \<Rightarrow> host \<Rightarrow> ASTNode \<Rightarrow> ASTNode \<Rightarrow> ASTNode OrRef list \<Rightarrow> Method parser" where
  "parseMethod fuel h doc operation commonParameters =
     bindS (liftS (operationIdOr ''UNNAMED'' operation)) (\<lambda>name.
     bindS (liftS (parseSecurity doc operation)) (\<lambda>security.
     bindS (parseParameters fuel h doc operation commonParameters) (\<lambda>parameters.
     bindS (liftS (parseDescription (getLiteral operation ''summary'')
                     (getLiteral operation ''description''))) (\<lambda>description.
     bindS (parseReturnType fuel h doc operation) (\<lambda>returnType.
       returnS \<lparr>method_name = name, method_security = security,
                method_parameters = parameters, method_description = description,
                method_returnType = returnType, method_meta = parseMeta operation\<rparr>)))))"

definition parseMethods :: "nat \<Rightarrow> host \<Rightarrow> ASTNode \<Rightarrow> string option \<Rightarrow> Method list parser" where
  "parseMethods fuel h doc interfaceName =
     bindS (liftS (allOperations doc)) (\<lambda>ops.
     bindS (mapMS (\<lambda>(path, verb, operation).
              case getChild doc ''paths'' of
                None \<Rightarrow> (\<lambda>st. Inl TypeError)
              | Some paths \<Rightarrow>
                  (case getChildOrRef paths path of
                     None \<Rightarrow> (\<lambda>st. Inl TypeError)
                   | Some item \<Rightarrow>
                       bindS (liftS (resolve doc item)) (\<lambda>pathNode.
                       bindS (liftS (parametersOf pathNode)) (\<lambda>common.
                       bindS (liftS (parseInterfaceName path operation)) (\<lambda>name.
                         if name \<noteq> interfaceName then returnS None
                         else (case operation of
                                 None \<Rightarrow> (\<lambda>st. Inl TypeError)
                               | Some op \<Rightarrow>
                                   bindS (parseMethod fuel h doc op
                                            (case common of None \<Rightarrow> [] | Some ps \<Rightarrow> ps))
                                     (\<lambda>m. returnS (Some m))))))))
            ops) (\<lambda>methods.
       returnS (List.map_filter id methods)))"

definition parseArrayStyle :: "ASTNode \<Rightarrow> string parser" where
  "parseArrayStyle paramNode =
     (case getLiteral paramNode ''style'' of
        None \<Rightarrow> returnS ''csv''
      | Some style \<Rightarrow>
          bindS (liftS (literalValue style)) (\<lambda>v.
            if v = LString ''matrix'' \<or> v = LString ''label'' then
              bindS (pushViolation
                       (ParameterStyleNotSupported (case v of LString s \<Rightarrow> s | _ \<Rightarrow> [])))
                (\<lambda>u. returnS ''csv'')
            else if v = LString ''form'' then
              bindS (liftS (flagValue paramNode ''explode'')) (\<lambda>explode.
                returnS (if explode then ''multi'' else ''csv''))
            else if v = LString ''simple'' then returnS ''csv''
            else if v = LString ''spaceDelimited'' then returnS ''ssv''
            else if v = LString ''pipeDelimited'' then returnS ''pipes''
            else returnS ''csv''))"

text \<open>
  The body of the parameter loop of \<^verbatim>\<open>parseHttpProtocol\<close>: the binding of one declared
  parameter, or nothing for a cookie parameter (\<^verbatim>\<open>continue\<close>).
\<close>

definition parseHttpParameter :: "ASTNode \<Rightarrow> ASTNode OrRef \<Rightarrow> HttpParameter option parser" where
  "parseHttpParameter doc param =
     bindS (liftS (resolveParam doc param)) (\<lambda>r.
       case r of
         None \<Rightarrow> (\<lambda>st. Inl CannotResolveReference)
       | Some resolved \<Rightarrow>
           bindS (liftS (requiredValue resolved ''in'')) (\<lambda>locationValue.
             if locationValue = LString ''cookie'' then
               bindS (pushViolation CookieNotSupported) (\<lambda>u. returnS None)
             else
               bindS (liftS (if locationValue = LString ''header''
                                 \<or> locationValue = LString ''path''
                                 \<or> locationValue = LString ''query''
                             then toSchemaOrRef (getProperty resolved ''schema'')
                             else Inr None)) (\<lambda>schema.
               bindS (liftS (requiredValue resolved ''name'')) (\<lambda>name.
                 case schema of
                   Some (Node (ArraySchemaNode a)) \<Rightarrow>
                     bindS (parseArrayStyle resolved) (\<lambda>style.
                       returnS (Some \<lparr>httpParam_name = name, httpParam_in = locationValue,
                                      httpParam_array = Some style\<rparr>))
                 | _ \<Rightarrow>
                     returnS (Some \<lparr>httpParam_name = name, httpParam_in = locationValue,
                                    httpParam_array = None\<rparr>)))))"

text \<open>The HTTP method that \<^verbatim>\<open>parseHttpProtocol\<close> pushes for one operation.\<close>

definition parseHttpMethod ::
  "nat \<Rightarrow> host \<Rightarrow> ASTNode \<Rightarrow> string \<Rightarrow> ASTNode \<Rightarrow> ASTNode OrRef list \<Rightarrow> HttpMethod parser" where
  "parseHttpMethod fuel h doc verb operation commonParameters =
     bindS (liftS (operationIdOr ''unknown'' operation)) (\<lambda>methodName.
     bindS (liftS (parseResponseCode (hostNumber h) doc verb operation)) (\<lambda>code.
     bindS (parseRequestBody fuel h doc (getChildOrRef operation ''requestBody'') methodName
              (parseBodyParamName h operation)) (\<lambda>body.
     bindS (liftS (parametersOf operation)) (\<lambda>own.
     bindS (mapMS (parseHttpParameter doc)
              ((case own of None \<Rightarrow> [] | Some ps \<Rightarrow> ps) @ commonParameters)) (\<lambda>params.
       returnS \<lparr>httpMethod_name = methodName, httpMethod_verb = verb,
                httpMethod_parameters =
                  (case body of
                     Some b \<Rightarrow> [\<lparr>httpParam_name = param_name b, httpParam_in = LString ''body'',
                                 httpParam_array = None\<rparr>]
                   | None \<Rightarrow> []) @ List.map_filter id params,
                httpMethod_successCode = code\<rparr>)))))"

definition parseHttpProtocol :: "nat \<Rightarrow> host \<Rightarrow> ASTNode \<Rightarrow> string option \<Rightarrow> HttpPath list parser" where
  "parseHttpProtocol fuel h doc interfaceName =
     (case getChild doc ''paths'' of
        None \<Rightarrow> (\<lambda>st. Inl TypeError)
      | Some paths \<Rightarrow>
          bindS (mapMS (\<lambda>path.
                   case getChildOrRef paths path of
                     None \<Rightarrow> (\<lambda>st. Inl TypeError)
                   | Some item \<Rightarrow>
                       bindS (liftS (resolve doc item)) (\<lambda>pathItem.
                       bindS (liftS (parametersOf pathItem)) (\<lambda>common.
                       bindS (mapMS (\<lambda>verb.
                                bindS (liftS (pathItemMember pathItem verb)) (\<lambda>operation.
                                bindS (liftS (parseInterfaceName path operation)) (\<lambda>name.
                                  if name \<noteq> interfaceName then returnS None
                                  else (case operation of
                                          None \<Rightarrow> (\<lambda>st. Inl TypeError)
                                        | Some op \<Rightarrow>
                                            bindS (parseHttpMethod fuel h doc verb op
                                                     (case common of None \<Rightarrow> [] | Some ps \<Rightarrow> ps))
                                              (\<lambda>m. returnS (Some m))))))
                              (filter (\<lambda>verb. verb \<noteq> ''parameters'') (keys pathItem)))
                         (\<lambda>methods.
                            returnS \<lparr>httpPath_path = path,
                                     httpPath_methods = List.map_filter id methods\<rparr>))))
                 (keys paths)) (\<lambda>httpPaths.
            returnS (filter (\<lambda>p. httpPath_methods p \<noteq> []) httpPaths)))"

definition parseInterfaces :: "nat \<Rightarrow> host \<Rightarrow> ASTNode \<Rightarrow> Interface list parser" where
  "parseInterfaces fuel h doc =
     bindS (liftS (parserInterfaceNames doc)) (\<lambda>names.
       mapMS (\<lambda>name.
                case name of
                  None \<Rightarrow> (\<lambda>st. Inl TypeError)
                | Some n \<Rightarrow>
                    bindS (parseMethods fuel h doc name) (\<lambda>methods.
                    bindS (parseHttpProtocol fuel h doc name) (\<lambda>http.
                      returnS \<lparr>interface_name = hostSingular h n, interface_methods = methods,
                               interface_http = http\<rparr>)))
         names)"

section \<open>Component schemas and the pipeline driver\<close>

definition getSchemas :: "ASTNode \<Rightarrow> ASTNode option" where
  "getSchemas doc =
     (case getChild doc ''components'' of
        None \<Rightarrow> None
      | Some components \<Rightarrow> getChild components ''schemas'')"

definition getSchema :: "ASTNode \<Rightarrow> string \<Rightarrow> error + SchemaNodeUnion option" where
  "getSchema doc name =
     (case getSchemas doc of
        None \<Rightarrow> Inr None
      | Some schemas \<Rightarrow>
          bind (toSchemaOrRef (getProperty schemas name)) (\<lambda>schemaOrRef.
            case schemaOrRef of
              None \<Rightarrow> Inr None
            | Some s \<Rightarrow> resolveSchema doc s))"

text \<open>
  \<^verbatim>\<open>parseDefinitions\<close>: the filter reads \<^verbatim>\<open>nodeType\<close> of every looked-up schema, which
  raises a type error on a component that is a reference to nothing classifiable.
\<close>

definition parseDefinitions :: "nat \<Rightarrow> host \<Rightarrow> ASTNode \<Rightarrow> Type list parser" where
  "parseDefinitions fuel h doc =
     (case getSchemas doc of
        None \<Rightarrow> returnS []
      | Some schemas \<Rightarrow>
          bindS (liftS (mapM (\<lambda>name.
                          bind (getSchema doc name) (\<lambda>s.
                            case s of
                              None \<Rightarrow> Inl TypeError
                            | Some node \<Rightarrow> Inr (name, node)))
                        (keys schemas))) (\<lambda>definitions.
            mapMS (\<lambda>(name, schema).
                     bindS (liftS (optValue (schemaNode schema) ''description'')) (\<lambda>d.
                     bindS (liftS (allOf (schemaNode schema))) (\<lambda>branches.
                     bindS (parseProperties fuel h doc (getChild (schemaNode schema) ''properties'')
                              (getArray (schemaNode schema) ''required'') branches name) (\<lambda>props.
                     bindS (liftS (parseObjectRules schema)) (\<lambda>rules.
                       returnS \<lparr>type_name = name, type_properties = props,
                                type_description = d, type_rules = rules,
                                type_meta = parseMeta (schemaNode schema)\<rparr>)))))
              (filter (\<lambda>(name, schema). isObjectSchema schema) definitions)))"

text \<open>
  \<^verbatim>\<open>items.reduce((acc, item) => ({ ...acc, [item.name.value]: item }), {})\<close> followed by
  \<^verbatim>\<open>Object.keys(byName).map((name) => byName[name])\<close>.
\<close>

definition collectByName :: "('a \<Rightarrow> string) \<Rightarrow> 'a list \<Rightarrow> 'a list" where
  "collectByName name entities =
     map snd (objectEntries (fromEntries (map (\<lambda>item. (name item, item)) entities)))"

text \<open>
  The two synthesis passes of \<^verbatim>\<open>parse\<close>, after the reset of the enum and anonymous-type
  tables: the interfaces and the component types, with the tables as they stand after
  both.
\<close>

definition synthesize :: "nat \<Rightarrow> host \<Rightarrow> ASTNode \<Rightarrow> (Interface list \<times> Type list) parser" where
  "synthesize fuel h doc =
     (\<lambda>st.
        bindS (parseInterfaces fuel h doc) (\<lambda>interfaces.
        bindS (parseDefinitions fuel h doc) (\<lambda>types.
          returnS (interfaces, types)))
        (st\<lparr>enums := [], anonymousTypes := []\<rparr>))"

definition parse :: "nat \<Rightarrow> host \<Rightarrow> ASTNode \<Rightarrow> Service parser" where
  "parse fuel h doc =
     bindS (synthesize fuel h doc) (\<lambda>(interfaces, types). (\<lambda>st.
       case getChild doc ''info'' of
         None \<Rightarrow> Inl TypeError
       | Some info \<Rightarrow>
           bind (requiredString info ''title'') (\<lambda>title.
           bind (requiredString info ''version'') (\<lambda>version.
             case hostMajor h version of
               None \<Rightarrow> Inl TypeError
             | Some major \<Rightarrow>
                 Inr (\<lparr>service_title = hostPascal h title, service_majorVersion = major,
                       service_interfaces = interfaces,
                       service_types = collectByName type_name (types @ anonymousTypes st),
                       service_enums = collectByName enum_name (enums st),
                       service_unions = collectByName union_name (unions st),
                       service_meta = parseMeta doc\<rparr>, st)))))"

text \<open>
  The exported parser: a fresh \<^verbatim>\<open>OAS3Parser\<close> (no unions, no violations), one call of
  \<^verbatim>\<open>parse\<close>, and the service with the violations.
\<close>

definition newParser :: pstate where
  "newParser = \<lparr>enums = [], anonymousTypes = [], unions = [], violations = []\<rparr>"

definition parser :: "nat \<Rightarrow> host \<Rightarrow> ASTNode \<Rightarrow> error + (Service \<times> Violation list)" where
  "parser fuel h doc =
     (case parse fuel h doc newParser of
        Inl e \<Rightarrow> Inl e
      | Inr (service, st) \<Rightarrow> Inr (service, violations st))"

section \<open>A host and a document to run the pipeline on\<close>

text \<open>
  \<open>exampleHost\<close> stands for the host functions on the inputs of the examples:
  \<^verbatim>\<open>camel\<close> joins the words between underscores, the first in lower case and the others
  capitalised; \<^verbatim>\<open>kebab\<close> and \<^verbatim>\<open>pascal\<close> are the identity (the examples apply them to
  \<^verbatim>\<open>codegen-request-body-name\<close> and \<^verbatim>\<open>Petstore\<close> only); \<^verbatim>\<open>singular\<close> drops a final \<^verbatim>\<open>s\<close>;
  \<^verbatim>\<open>Number\<close> is \<open>decimalNumber\<close>; a number is printed in decimal digits; \<^verbatim>\<open>major\<close> reads the
  first of three numeric fields. The theorems do not depend on it: they hold for every
  host.
\<close>

definition digitChar :: "nat \<Rightarrow> char" where
  "digitChar d = ''0123456789'' ! d"

fun decimalDigits :: "nat \<Rightarrow> nat \<Rightarrow> string" where
  "decimalDigits 0 n = []"
| "decimalDigits (Suc k) n =
     (if n < 10 then [digitChar n] else decimalDigits k (n div 10) @ [digitChar (n mod 10)])"

definition exampleString :: "jsnum \<Rightarrow> string" where
  "exampleString n =
     (case n of
        Finite q \<Rightarrow>
          (if q = of_int \<lfloor>q\<rfloor> \<and> 0 \<le> q then decimalDigits 16 (nat \<lfloor>q\<rfloor>) else ''?'')
      | PosInfinity \<Rightarrow> ''Infinity''
      | NegInfinity \<Rightarrow> ''-Infinity''
      | NaN \<Rightarrow> ''NaN'')"

definition lowerChar :: "char \<Rightarrow> char" where
  "lowerChar c =
     (case map_of (zip ''ABCDEFGHIJKLMNOPQRSTUVWXYZ'' ''abcdefghijklmnopqrstuvwxyz'') c of
        Some l \<Rightarrow> l
      | None \<Rightarrow> c)"

definition upperChar :: "char \<Rightarrow> char" where
  "upperChar c =
     (case map_of (zip ''abcdefghijklmnopqrstuvwxyz'' ''ABCDEFGHIJKLMNOPQRSTUVWXYZ'') c of
        Some u \<Rightarrow> u
      | None \<Rightarrow> c)"

definition exampleCamel :: "string \<Rightarrow> string" where
  "exampleCamel s =
     (case filter (\<lambda>w. w \<noteq> []) (split (CHR ''_'') s) of
        [] \<Rightarrow> []
      | w # ws \<Rightarrow>
          (lowerChar (hd w) # tl w) @ concat (map (\<lambda>v. upperChar (hd v) # tl v) ws))"

definition exampleSingular :: "string \<Rightarrow> string" where
  "exampleSingular s = (if s \<noteq> [] \<and> last s = CHR ''s'' then butlast s else s)"

definition exampleMajor :: "string \<Rightarrow> jsnum option" where
  "exampleMajor v =
     (case split (CHR ''.'') v of
        [a, b, c] \<Rightarrow>
          (if decimalNumber a = NaN \<or> decimalNumber b = NaN \<or> decimalNumber c = NaN then None
           else Some (decimalNumber a))
      | _ \<Rightarrow> None)"

definition exampleHost :: host where
  "exampleHost =
     \<lparr>hostNumber = decimalNumber, hostString = exampleString, hostCamel = exampleCamel,
      hostKebab = (\<lambda>s. s), hostPascal = (\<lambda>s. s), hostSingular = exampleSingular,
      hostMajor = exampleMajor\<rparr>"

definition stringSchema :: ASTNode where
  "stringSchema = Object [(''type'', Literal (LString ''string''))]"

definition petRef :: ASTNode where
  "petRef = Object [(''$ref'', Literal (LString ''#/components/schemas/Pet''))]"

text \<open>A path-level parameter, shared by the operations of the path.\<close>

definition traceParam :: ASTNode where
  "traceParam = Object
     [(''name'', Literal (LString ''trace'')), (''in'', Literal (LString ''header'')),
      (''schema'', stringSchema)]"

definition idParam :: ASTNode where
  "idParam = Object
     [(''name'', Literal (LString ''id'')), (''in'', Literal (LString ''path'')),
      (''required'', Literal (LBoolean True)), (''schema'', stringSchema)]"

definition dryRunParam :: ASTNode where
  "dryRunParam = Object
     [(''name'', Literal (LString ''dryRun'')), (''in'', Literal (LString ''query'')),
      (''schema'', Object [(''type'', Literal (LString ''boolean''))])]"

text \<open>An operation with an identifier, and one without that sends a body.\<close>

definition getPet :: ASTNode where
  "getPet = Object
     [(''tags'', Array [Literal (LString ''pets'')]),
      (''operationId'', Literal (LString ''getPet'')),
      (''parameters'', Array [idParam]),
      (''responses'', Object
         [(''200'', Object
            [(''content'', Object [(''application/json'', Object [(''schema'', petRef)])])])])]"

definition putPet :: ASTNode where
  "putPet = Object
     [(''tags'', Array [Literal (LString ''pets'')]),
      (''parameters'', Array [idParam, dryRunParam]),
      (''requestBody'', Object
         [(''content'', Object [(''application/json'', Object [(''schema'', petRef)])])]),
      (''responses'', Object [(''default'', Object [])])]"

definition petstore :: ASTNode where
  "petstore = Object
     [(''openapi'', Literal (LString ''3.0.1'')),
      (''info'', Object
         [(''title'', Literal (LString ''Petstore'')), (''version'', Literal (LString ''1.0.0''))]),
      (''paths'', Object
         [(''/pets/{id}'', Object
             [(''parameters'', Array [traceParam]), (''get'', getPet), (''put'', putPet)])]),
      (''components'', Object
         [(''schemas'', Object
            [(''Pet'', Object
               [(''type'', Literal (LString ''object'')),
                (''required'', Array [Literal (LString ''name'')]),
                (''properties'', Object
                   [(''name'', stringSchema),
                    (''state'', Object
                       [(''type'', Literal (LString ''string'')),
                        (''enum'', Array [Literal (LString ''sold''),
                                          Literal (LString ''kept'')])])])])])])]"

section \<open>Vocabulary for the statements about parameter lists\<close>

text \<open>
  The name a declared parameter (inline or by reference) contributes: the \<^verbatim>\<open>name\<close> of the
  parameter object it resolves to, and nothing when it does not resolve to an object.
\<close>

definition declaredName :: "ASTNode \<Rightarrow> ASTNode OrRef \<Rightarrow> literal option" where
  "declaredName doc param =
     (case resolveParam doc param of
        Inr (Some node) \<Rightarrow>
          (case requiredValue node ''name'' of Inr v \<Rightarrow> Some v | Inl e \<Rightarrow> None)
      | _ \<Rightarrow> None)"

definition isCookie :: "ASTNode \<Rightarrow> ASTNode OrRef \<Rightarrow> bool" where
  "isCookie doc param =
     (case resolveParam doc param of
        Inr (Some node) \<Rightarrow> requiredValue node ''in'' = Inr (LString ''cookie'')
      | _ \<Rightarrow> False)"

text \<open>The schema of the first content type of a body or response, without the diagnostics.\<close>

definition mediaTypeSchema :: "ASTNode option \<Rightarrow> error + SchemaNodeUnion OrRef option" where
  "mediaTypeSchema content =
     (case content of
        None \<Rightarrow> Inr None
      | Some c \<Rightarrow>
          (case keys c of
             [] \<Rightarrow> Inr None
           | k # ks \<Rightarrow>
               (case getChild c k of
                  None \<Rightarrow> Inr None
                | Some mediaType \<Rightarrow> toSchemaOrRef (getProperty mediaType ''schema''))))"

text \<open>
  An operation has a request body that yields a parameter when its \<^verbatim>\<open>requestBody\<close>
  resolves, the first content type of the body has a schema, and that schema resolves to
  a classified schema.
\<close>

definition declaresBodySchema :: "ASTNode \<Rightarrow> ASTNode \<Rightarrow> bool" where
  "declaresBodySchema doc operation =
     (case getChildOrRef operation ''requestBody'' of
        None \<Rightarrow> False
      | Some b \<Rightarrow>
          (case resolve doc b of
             Inl e \<Rightarrow> False
           | Inr body \<Rightarrow>
               (case mediaTypeSchema (getChild body ''content'') of
                  Inr (Some s) \<Rightarrow>
                    (case resolveSchema doc s of Inr (Some schema) \<Rightarrow> True | _ \<Rightarrow> False)
                | _ \<Rightarrow> False)))"

section \<open>The reference resolver: properties\<close>

lemma resolveSegments_error:
  "resolveSegments doc ref cur segs = Inl e \<Longrightarrow> e = CannotResolveRef ref"
  by (induction segs arbitrary: cur) (auto split: ASTNode.splits option.splits if_splits)

lemma ex_split_Cons:
  "(\<exists>pre seg post. s # segs = pre @ seg # post \<and> P pre seg) =
   (P [] s \<or> (\<exists>pre seg post. segs = pre @ seg # post \<and> P (s # pre) seg))"
  (is "?L = ?R")
proof
  assume ?L
  then obtain pre seg post where h: "s # segs = pre @ seg # post" "P pre seg" by blast
  show ?R
  proof (cases pre)
    case Nil
    with h show ?thesis by simp
  next
    case (Cons a pre')
    with h have "segs = pre' @ seg # post \<and> P (s # pre') seg" by simp
    then show ?thesis by blast
  qed
next
  assume ?R
  then show ?L
  proof
    assume "P [] s"
    then have "s # segs = [] @ s # segs \<and> P [] s" by simp
    then show ?L by blast
  next
    assume "\<exists>pre seg post. segs = pre @ seg # post \<and> P (s # pre) seg"
    then obtain pre seg post where "segs = pre @ seg # post" "P (s # pre) seg" by blast
    then have "s # segs = (s # pre) @ seg # post \<and> P (s # pre) seg" by simp
    then show ?L by blast
  qed
qed

text \<open>
  The walk fails exactly when some segment, reached after a prefix of the segments was
  walked successfully, is looked up in vain.
\<close>

lemma resolveSegments_fails_iff:
  "(resolveSegments doc ref cur segs = Inl (CannotResolveRef ref)) =
   (\<exists>pre seg post. segs = pre @ seg # post \<and>
      (\<exists>n. resolveSegments doc ref cur pre = Inr n \<and> lookupFails n seg))"
proof (induction segs arbitrary: cur)
  case Nil
  then show ?case by simp
next
  case (Cons s segs)
  show ?case
    unfolding ex_split_Cons [where P = "\<lambda>pre seg. \<exists>n. resolveSegments doc ref cur pre = Inr n \<and> lookupFails n seg"]
    by (cases cur) (auto simp: Cons.IH lookupFails_def isObject_def getProperty_def split: option.splits)
qed

text \<open>
  Claim C2. For every pointer string \<open>p\<close> and document root \<open>r\<close>: a pointer that does not
  start with \<^verbatim>\<open>#\<close> fails at once with the unresolvable-reference error; otherwise the
  pointer is split at \<^verbatim>\<open>/\<close> and walked from the root segment by segment, and the walk
  fails with that error exactly when, after some prefix of the segments was walked to a
  node \<open>n\<close>, the next segment is looked up on \<open>n\<close> and \<open>n\<close> is not an object or has no such
  property (a segment \<^verbatim>\<open>#\<close> is the root marker and is never looked up). No other error is
  raised, and the pointer \<^verbatim>\<open>#\<close> alone resolves to the root.
\<close>

theorem resolveRef_unresolvable:
  "(\<not> startsWith p ''#'' \<longrightarrow> resolveRef r p = Inl (CannotResolveRef p)) \<and>
   (startsWith p ''#'' \<longrightarrow>
      (resolveRef r p = Inl (CannotResolveRef p)) =
      (\<exists>pre seg post. split (CHR ''/'') p = pre @ seg # post \<and>
         (\<exists>n. resolveSegments r p r pre = Inr n \<and> lookupFails n seg))) \<and>
   (\<forall>e. resolveRef r p = Inl e \<longrightarrow> e = CannotResolveRef p) \<and>
   resolveRef r ''#'' = Inr r"
proof -
  have a: "\<not> startsWith p ''#'' \<longrightarrow> resolveRef r p = Inl (CannotResolveRef p)"
    by (simp add: resolveRef_def)
  have b: "startsWith p ''#'' \<longrightarrow>
      (resolveRef r p = Inl (CannotResolveRef p)) =
      (\<exists>pre seg post. split (CHR ''/'') p = pre @ seg # post \<and>
         (\<exists>n. resolveSegments r p r pre = Inr n \<and> lookupFails n seg))"
    by (simp add: resolveRef_def resolveSegments_fails_iff)
  have c: "\<forall>e. resolveRef r p = Inl e \<longrightarrow> e = CannotResolveRef p"
    by (auto simp: resolveRef_def dest: resolveSegments_error split: if_splits)
  have d: "resolveRef r ''#'' = Inr r"
    by (simp add: resolveRef_def startsWith_def)
  from a b c d show ?thesis by blast
qed

text \<open>
  On \<open>doc1\<close>, the pointer \<^verbatim>\<open>#/a/b/c\<close> walks \<^verbatim>\<open>#\<close>, \<^verbatim>\<open>a\<close>, \<^verbatim>\<open>b\<close> to a literal and fails on
  \<^verbatim>\<open>c\<close>; \<^verbatim>\<open>a/b\<close> fails at once; \<^verbatim>\<open>#/a/b\<close> resolves.
\<close>

theorem resolveRef_unresolvable_witness:
  "startsWith ''#/a/b/c'' ''#'' \<and>
   split (CHR ''/'') ''#/a/b/c'' = [''#'', ''a'', ''b''] @ ''c'' # [] \<and>
   resolveSegments doc1 ''#/a/b/c'' doc1 [''#'', ''a'', ''b''] = Inr (Literal (LString ''x'')) \<and>
   lookupFails (Literal (LString ''x'')) ''c'' \<and>
   resolveRef doc1 ''#/a/b/c'' = Inl (CannotResolveRef ''#/a/b/c'') \<and>
   \<not> startsWith ''a/b'' ''#'' \<and>
   resolveRef doc1 ''a/b'' = Inl (CannotResolveRef ''a/b'') \<and>
   resolveRef doc1 ''#/a/b'' = Inr (Literal (LString ''x''))"
  using resolveRef_unresolvable [of "''#/a/b/c''" doc1] resolveRef_unresolvable [of "''a/b''" doc1]
  by (simp add: doc1_def startsWith_def lookupFails_def isObject_def resolveRef_def)

section \<open>The schema classifier: properties\<close>

lemma switchType_classify:
  "map_of children ''type'' = Some (Literal t) \<Longrightarrow>
   switchType t (Object children) = classifySpec (Object children)"
  by (auto simp: switchType_def classifySpec_def isObject_def getProperty_def split: literal.splits)

text \<open>
  Claim C7. Classification depends on the node alone. \<^verbatim>\<open>resolveSchema\<close>, once the
  reference is resolved to a node, returns exactly the classification the specification
  prescribes for that node (an object node without \<^verbatim>\<open>type\<close> is an object schema, the six
  type names select their variant with \<^verbatim>\<open>integer\<close> and \<^verbatim>\<open>number\<close> both a number schema,
  every other \<^verbatim>\<open>type\<close> value and every non-object node gives nothing), and it returns an
  inline schema unchanged. \<^verbatim>\<open>toSchemaOrRef\<close>, on a node that is not a reference, returns
  the same classification, and where there is none it raises the unknown-schema error.
\<close>

theorem classification_follows_spec:
  "(refValue r = Inr ref \<longrightarrow> resolveRef doc ref = Inr node \<longrightarrow>
      resolveSchema doc (RefNode r) = Inr (classifySpec node)) \<and>
   (\<not> isRef (Some node) \<longrightarrow>
      toSchemaOrRef (Some node) =
        (case classifySpec node of
           Some s \<Rightarrow> Inr (Some (Node s))
         | None \<Rightarrow> Inl UnknownSchemaDefinition)) \<and>
   resolveSchema doc (Node s) = Inr (Some s)"
proof -
  have a: "refValue r = Inr ref \<longrightarrow> resolveRef doc ref = Inr node \<longrightarrow>
      resolveSchema doc (RefNode r) = Inr (classifySpec node)"
    by (cases node)
       (auto simp: resolveSchema_def bind_def switchType_classify classifySpec_def isObject_def
          getProperty_def split: option.splits ASTNode.splits)
  have b: "\<not> isRef (Some node) \<longrightarrow>
      toSchemaOrRef (Some node) =
        (case classifySpec node of
           Some s \<Rightarrow> Inr (Some (Node s))
         | None \<Rightarrow> Inl UnknownSchemaDefinition)"
    by (cases node)
       (auto simp: toSchemaOrRef_def switchType_classify classifySpec_def isObject_def
          getProperty_def split: option.splits ASTNode.splits)
  have c: "resolveSchema doc (Node s) = Inr (Some s)"
    by (simp add: resolveSchema_def)
  from a b c show ?thesis by blast
qed

text \<open>
  On \<open>doc2\<close>: a reference to an \<^verbatim>\<open>integer\<close> schema is a number schema, and the inline
  node \<^verbatim>\<open>{type: null}\<close> is not a reference and has no classification.
\<close>

theorem classification_follows_spec_witness:
  "refValue (Object [(''$ref'', Literal (LString ''#/components/schemas/Count''))])
     = Inr ''#/components/schemas/Count'' \<and>
   resolveRef doc2 ''#/components/schemas/Count''
     = Inr (Object [(''type'', Literal (LString ''integer''))]) \<and>
   resolveSchema doc2 (RefNode (Object [(''$ref'', Literal (LString ''#/components/schemas/Count''))]))
     = Inr (Some (NumberSchemaNode (Object [(''type'', Literal (LString ''integer''))]))) \<and>
   \<not> isRef (Some (Object [(''type'', Literal (LString ''null''))])) \<and>
   toSchemaOrRef (Some (Object [(''type'', Literal (LString ''null''))]))
     = Inl UnknownSchemaDefinition"
  using classification_follows_spec
    [of "Object [(''$ref'', Literal (LString ''#/components/schemas/Count''))]"
        "''#/components/schemas/Count''" doc2
        "Object [(''type'', Literal (LString ''integer''))]"]
    classification_follows_spec
    [of _ _ _ "Object [(''type'', Literal (LString ''null''))]"]
  by (simp add: doc2_def refValue_def getLiteral_def getChild_def getProperty_def
        literalValue_def bind_def resolveRef_def startsWith_def classifySpec_def isObject_def
        isRef_def)

section \<open>The object-schema overlay: properties\<close>

text \<open>
  Claim C10. On every object schema node the \<^verbatim>\<open>anyOf\<close> accessor reads the property
  \<^verbatim>\<open>oneOf\<close>: it returns what the \<^verbatim>\<open>oneOf\<close> accessor returns, and on a node without a
  \<^verbatim>\<open>oneOf\<close> property it returns no member list, whatever the node declares under
  \<^verbatim>\<open>anyOf\<close>.
\<close>

theorem anyOf_reads_oneOf:
  "anyOf node = oneOf node \<and> (getProperty node ''oneOf'' = None \<longrightarrow> anyOf node = Inr None)"
  by (simp add: anyOf_def oneOf_def)

text \<open>A schema that declares one alternative under \<^verbatim>\<open>anyOf\<close> only.\<close>

theorem anyOf_reads_oneOf_witness:
  "getProperty (Object [(''anyOf'', Array [Object [(''type'', Literal (LString ''object''))]])])
     ''oneOf'' = None \<and>
   anyOf (Object [(''anyOf'', Array [Object [(''type'', Literal (LString ''object''))]])])
     = Inr None"
  using anyOf_reads_oneOf
    [of "Object [(''anyOf'', Array [Object [(''type'', Literal (LString ''object''))]])]",
     THEN conjunct2]
  by (simp add: getProperty_def)

section \<open>Validation rule synthesis: properties\<close>

subsection \<open>The object pipeline\<close>

lemma additionalProperties_false:
  "(objectAdditionalPropertiesFactory (ObjectSchemaNode n) = Inr (Some r)) =
   (r = ObjectAdditionalProperties \<and>
    getProperty n ''additionalProperties'' = Some (Literal (LBoolean False)))"
  by (auto simp: objectAdditionalPropertiesFactory_def additionalProperties_def bind_def
        getLiteral_def getChild_def literalValue_def
      split: option.splits ASTNode.splits sum.splits AdditionalProperties.splits if_splits)

lemma min_not_additional:
  "objectMinPropertiesFactory d = Inr (Some r) \<Longrightarrow> r \<noteq> ObjectAdditionalProperties"
  by (auto simp: objectMinPropertiesFactory_def bind_def split: SchemaNodeUnion.splits sum.splits)

lemma max_not_additional:
  "objectMaxPropertiesFactory d = Inr (Some r) \<Longrightarrow> r \<noteq> ObjectAdditionalProperties"
  by (auto simp: objectMaxPropertiesFactory_def bind_def split: SchemaNodeUnion.splits sum.splits)

lemma parseObjectRules_unfold:
  "parseObjectRules d =
     bind (objectMaxPropertiesFactory d) (\<lambda>a.
     bind (objectMinPropertiesFactory d) (\<lambda>b.
     bind (objectAdditionalPropertiesFactory d) (\<lambda>c.
       Inr (List.map_filter id [a, b, c]))))"
  by (simp add: parseObjectRules_def applyFactories_def objectFactories_def bind_def
      split: sum.splits)

lemma parseObjectRules_additional:
  assumes "parseObjectRules (ObjectSchemaNode n) = Inr rules"
  shows "(ObjectAdditionalProperties \<in> set rules) =
         (getProperty n ''additionalProperties'' = Some (Literal (LBoolean False)))"
proof -
  from assms obtain a b c where
    a: "objectMaxPropertiesFactory (ObjectSchemaNode n) = Inr a" and
    b: "objectMinPropertiesFactory (ObjectSchemaNode n) = Inr b" and
    c: "objectAdditionalPropertiesFactory (ObjectSchemaNode n) = Inr c" and
    r: "rules = List.map_filter id [a, b, c]"
    by (auto simp: parseObjectRules_unfold bind_def split: sum.splits)
  have na: "a \<noteq> Some ObjectAdditionalProperties" using max_not_additional a by blast
  have nb: "b \<noteq> Some ObjectAdditionalProperties" using min_not_additional b by blast
  have "(ObjectAdditionalProperties \<in> set rules) = (c = Some ObjectAdditionalProperties)"
    using na nb by (cases a; cases b; cases c) (auto simp: r List.map_filter_def)
  also have "\<dots> = (getProperty n ''additionalProperties'' = Some (Literal (LBoolean False)))"
    using c additionalProperties_false [of n ObjectAdditionalProperties] by auto
  finally show ?thesis .
qed

text \<open>
  Claim C8. For every object schema, the factory emits the additional-properties rule
  (id \<^verbatim>\<open>object-additional-properties\<close>, with \<^verbatim>\<open>forbidden: true\<close>) if and only if the
  schema's \<^verbatim>\<open>additionalProperties\<close> is the literal \<^verbatim>\<open>false\<close>, and whenever the object
  pipeline returns, its rules contain that rule under the same condition. In particular
  an object value (a nested schema) and the literal \<^verbatim>\<open>true\<close> produce no such rule.
\<close>

theorem additionalProperties_forbidden_iff:
  "((\<exists>r. objectAdditionalPropertiesFactory (ObjectSchemaNode n) = Inr (Some r)) =
      (getProperty n ''additionalProperties'' = Some (Literal (LBoolean False)))) \<and>
   (\<forall>rules. parseObjectRules (ObjectSchemaNode n) = Inr rules \<longrightarrow>
      (ObjectAdditionalProperties \<in> set rules) =
      (getProperty n ''additionalProperties'' = Some (Literal (LBoolean False)))) \<and>
   (\<forall>children r. getProperty n ''additionalProperties'' = Some (Object children) \<longrightarrow>
      objectAdditionalPropertiesFactory (ObjectSchemaNode n) \<noteq> Inr (Some r)) \<and>
   (\<forall>r. getProperty n ''additionalProperties'' = Some (Literal (LBoolean True)) \<longrightarrow>
      objectAdditionalPropertiesFactory (ObjectSchemaNode n) \<noteq> Inr (Some r))"
proof -
  have a: "(\<exists>r. objectAdditionalPropertiesFactory (ObjectSchemaNode n) = Inr (Some r)) =
      (getProperty n ''additionalProperties'' = Some (Literal (LBoolean False)))"
    by (simp add: additionalProperties_false)
  have b: "\<forall>rules. parseObjectRules (ObjectSchemaNode n) = Inr rules \<longrightarrow>
      (ObjectAdditionalProperties \<in> set rules) =
      (getProperty n ''additionalProperties'' = Some (Literal (LBoolean False)))"
    using parseObjectRules_additional by blast
  have c: "\<forall>children r. getProperty n ''additionalProperties'' = Some (Object children) \<longrightarrow>
      objectAdditionalPropertiesFactory (ObjectSchemaNode n) \<noteq> Inr (Some r)"
    by (simp add: additionalProperties_false)
  have d: "\<forall>r. getProperty n ''additionalProperties'' = Some (Literal (LBoolean True)) \<longrightarrow>
      objectAdditionalPropertiesFactory (ObjectSchemaNode n) \<noteq> Inr (Some r)"
    by (simp add: additionalProperties_false)
  from a b c d show ?thesis by blast
qed

text \<open>
  The two scenarios of the specification: \<^verbatim>\<open>additionalProperties: false\<close> yields the
  rule, \<^verbatim>\<open>additionalProperties: {type: string}\<close> yields none.
\<close>

theorem additionalProperties_forbidden_iff_witness:
  "parseObjectRules (ObjectSchemaNode closedObject) = Inr [ObjectAdditionalProperties] \<and>
   ObjectAdditionalProperties \<in> set [ObjectAdditionalProperties] \<and>
   getProperty closedObject ''additionalProperties'' = Some (Literal (LBoolean False)) \<and>
   parseObjectRules (ObjectSchemaNode mapObject) = Inr [] \<and>
   getProperty mapObject ''additionalProperties''
     = Some (Object [(''type'', Literal (LString ''string''))])"
  using additionalProperties_forbidden_iff [of closedObject]
    additionalProperties_forbidden_iff [of mapObject]
  by (simp add: closedObject_def mapObject_def parseObjectRules_unfold bind_def
        objectMaxPropertiesFactory_def objectMinPropertiesFactory_def
        objectAdditionalPropertiesFactory_def additionalProperties_def numberValue_def
        optValue_def getLiteral_def getChild_def getProperty_def literalValue_def
        toSchemaOrRef_def isRef_def switchType_def List.map_filter_def)

subsection \<open>The numeric bounds\<close>

lemma applyFactories_number:
  "applyFactories factories (NumberSchemaNode n) =
     bind (numberMultipleOfFactory (NumberSchemaNode n)) (\<lambda>a.
     bind (numberGreaterThanFactory (NumberSchemaNode n)) (\<lambda>b.
     bind (numberLessThanFactory (NumberSchemaNode n)) (\<lambda>c.
       Inr (List.map_filter id [a, b, c]))))"
  by (simp add: applyFactories_def factories_def bind_def
        stringEnumFactory_def stringFormatFactory_def stringMaxLengthFactory_def
        stringMinLengthFactory_def stringPatternFactory_def arrayMaxItemsFactory_def
        arrayMinItemsFactory_def arrayUniqueItemsFactory_def List.map_filter_def
      split: sum.splits)

lemma parseRules_number:
  "parseRules doc (NumberSchemaNode n) required =
     bind (applyFactories factories (NumberSchemaNode n)) (\<lambda>localRules.
       Inr (if required then Required # localRules else localRules))"
  by (simp add: parseRules_def)

lemma numberValue_numeric:
  "getProperty n key = Some (Literal (LNumber m)) \<Longrightarrow> numberValue n key = Inr (Some m)"
  by (simp add: numberValue_def optValue_def getLiteral_def getChild_def literalValue_def bind_def)

lemma numberLessThanFactory_numeric:
  "getProperty n ''maximum'' = Some (Literal (LNumber m)) \<Longrightarrow>
   flagValue n ''exclusiveMinimum'' = Inr exclusive \<Longrightarrow>
   numberLessThanFactory (NumberSchemaNode n) =
     Inr (Some (if exclusive then NumberLT m else NumberLTE m))"
  by (simp add: numberLessThanFactory_def numberValue_numeric bind_def)

lemma numberGreaterThanFactory_numeric:
  "getProperty n ''minimum'' = Some (Literal (LNumber m)) \<Longrightarrow>
   flagValue n ''exclusiveMinimum'' = Inr exclusive \<Longrightarrow>
   numberGreaterThanFactory (NumberSchemaNode n) =
     Inr (Some (if exclusive then NumberGT m else NumberGTE m))"
  by (simp add: numberGreaterThanFactory_def numberValue_numeric bind_def)

lemma multipleOf_ids:
  "numberMultipleOfFactory d = Inr (Some r) \<Longrightarrow> \<not> isUpperBound r \<and> \<not> isLowerBound r"
  by (auto simp: numberMultipleOfFactory_def bind_def isUpperBound_def isLowerBound_def
      split: SchemaNodeUnion.splits sum.splits)

lemma greaterThan_ids:
  "numberGreaterThanFactory d = Inr (Some r) \<Longrightarrow> \<not> isUpperBound r \<and> isLowerBound r"
  by (auto simp: numberGreaterThanFactory_def bind_def isUpperBound_def isLowerBound_def
      split: SchemaNodeUnion.splits sum.splits option.splits if_splits)

lemma lessThan_ids:
  "numberLessThanFactory d = Inr (Some r) \<Longrightarrow> isUpperBound r \<and> \<not> isLowerBound r"
  by (auto simp: numberLessThanFactory_def bind_def isUpperBound_def isLowerBound_def
      split: SchemaNodeUnion.splits sum.splits option.splits if_splits)

lemma filter_three_last:
  assumes "\<And>r. a = Some r \<Longrightarrow> \<not> P r" "\<And>r. b = Some r \<Longrightarrow> \<not> P r" "c = Some r" "P r"
  shows "filter P (List.map_filter id [a, b, c]) = [r]"
  using assms by (cases a; cases b) (auto simp: List.map_filter_def)

lemma filter_three_mid:
  assumes "\<And>r. a = Some r \<Longrightarrow> \<not> P r" "b = Some r" "P r" "\<And>r. c = Some r \<Longrightarrow> \<not> P r"
  shows "filter P (List.map_filter id [a, b, c]) = [r]"
  using assms by (cases a; cases c) (auto simp: List.map_filter_def)

lemma upper_bound_once:
  assumes mx: "getProperty n ''maximum'' = Some (Literal (LNumber m))"
    and ex: "flagValue n ''exclusiveMinimum'' = Inr exclusive"
    and ok: "applyFactories factories (NumberSchemaNode n) = Inr rules"
  shows "filter isUpperBound rules = [if exclusive then NumberLT m else NumberLTE m]"
proof -
  from ok obtain a b c where
    a: "numberMultipleOfFactory (NumberSchemaNode n) = Inr a" and
    b: "numberGreaterThanFactory (NumberSchemaNode n) = Inr b" and
    c: "numberLessThanFactory (NumberSchemaNode n) = Inr c" and
    r: "rules = List.map_filter id [a, b, c]"
    by (auto simp: applyFactories_number bind_def split: sum.splits)
  let ?r = "if exclusive then NumberLT m else NumberLTE m"
  have c': "c = Some ?r" using c numberLessThanFactory_numeric [OF mx ex] by simp
  have "filter isUpperBound (List.map_filter id [a, b, c]) = [?r]"
  proof (rule filter_three_last)
    show "\<And>r. a = Some r \<Longrightarrow> \<not> isUpperBound r" using a multipleOf_ids by blast
    show "\<And>r. b = Some r \<Longrightarrow> \<not> isUpperBound r" using b greaterThan_ids by blast
    show "c = Some ?r" by (rule c')
    show "isUpperBound ?r" by (simp add: isUpperBound_def)
  qed
  with r show ?thesis by simp
qed

lemma lower_bound_once:
  assumes mn: "getProperty n ''minimum'' = Some (Literal (LNumber m))"
    and ex: "flagValue n ''exclusiveMinimum'' = Inr exclusive"
    and ok: "applyFactories factories (NumberSchemaNode n) = Inr rules"
  shows "filter isLowerBound rules = [if exclusive then NumberGT m else NumberGTE m]"
proof -
  from ok obtain a b c where
    a: "numberMultipleOfFactory (NumberSchemaNode n) = Inr a" and
    b: "numberGreaterThanFactory (NumberSchemaNode n) = Inr b" and
    c: "numberLessThanFactory (NumberSchemaNode n) = Inr c" and
    r: "rules = List.map_filter id [a, b, c]"
    by (auto simp: applyFactories_number bind_def split: sum.splits)
  let ?r = "if exclusive then NumberGT m else NumberGTE m"
  have b': "b = Some ?r" using b numberGreaterThanFactory_numeric [OF mn ex] by simp
  have "filter isLowerBound (List.map_filter id [a, b, c]) = [?r]"
  proof (rule filter_three_mid)
    show "\<And>r. a = Some r \<Longrightarrow> \<not> isLowerBound r" using a multipleOf_ids by blast
    show "\<And>r. c = Some r \<Longrightarrow> \<not> isLowerBound r" using c lessThan_ids by blast
    show "b = Some ?r" by (rule b')
    show "isLowerBound ?r" by (simp add: isLowerBound_def)
  qed
  with r show ?thesis by simp
qed

lemma parseRules_number_bounds:
  assumes "parseRules doc (NumberSchemaNode n) required = Inr rules"
  obtains localRules where "applyFactories factories (NumberSchemaNode n) = Inr localRules"
    and "filter isUpperBound rules = filter isUpperBound localRules"
    and "filter isLowerBound rules = filter isLowerBound localRules"
  using assms
  by (auto simp: parseRules_number bind_def isUpperBound_def isLowerBound_def
      split: sum.splits if_splits)

lemma flagValue_holds:
  assumes "getProperty n key = None \<or> (\<exists>l. getProperty n key = Some (Literal l))"
  shows "flagValue n key = Inr (flagHolds (getProperty n key))"
proof (cases "getProperty n key")
  case None
  then show ?thesis
    by (simp add: flagValue_def optValue_def getLiteral_def getChild_def bind_def flagHolds_def)
next
  case (Some v)
  with assms obtain l where "v = Literal l" by auto
  with Some show ?thesis
    by (cases l)
       (simp_all add: flagValue_def optValue_def getLiteral_def getChild_def literalValue_def
          bind_def flagHolds_def)
qed

lemma flagHolds_table:
  "\<not> flagHolds None \<and>
   (\<forall>b. flagHolds (Some (Literal (LBoolean b))) = b) \<and>
   (\<forall>x. flagHolds (Some (Literal (LNumber x))) = (x \<noteq> Finite 0 \<and> x \<noteq> NaN)) \<and>
   (\<forall>s. flagHolds (Some (Literal (LString s))) = (s \<noteq> [])) \<and>
   \<not> flagHolds (Some (Literal LNull))"
  by (simp add: flagHolds_def)

lemma lessThan_ignores_exclusiveMaximum:
  "getProperty n' ''maximum'' = getProperty n ''maximum'' \<Longrightarrow>
   getProperty n' ''exclusiveMinimum'' = getProperty n ''exclusiveMinimum'' \<Longrightarrow>
   numberLessThanFactory (NumberSchemaNode n') = numberLessThanFactory (NumberSchemaNode n)"
  by (simp add: numberLessThanFactory_def numberValue_def flagValue_def optValue_def
        getLiteral_def getChild_def)

text \<open>
  Claim C5, as the code has it. Take a number schema whose \<^verbatim>\<open>exclusiveMinimum\<close> is absent
  or a literal of any type, and call the flag set when that value is truthy: \<^verbatim>\<open>true\<close>, a
  number other than zero and \<open>NaN\<close>, or a non-empty string; it is not set when the
  property is absent, \<^verbatim>\<open>false\<close>, zero, \<open>NaN\<close>, the empty string or \<^verbatim>\<open>null\<close>. If the schema
  carries a numeric \<^verbatim>\<open>maximum\<close> \<open>m\<close>, the less-than factory emits \<^verbatim>\<open>number-lt\<close> \<open>m\<close> when
  the flag is set and \<^verbatim>\<open>number-lte\<close> \<open>m\<close> otherwise, and every rule list that
  \<^verbatim>\<open>parseRules\<close> returns for the schema contains exactly that one upper-bound rule. The
  factory reads \<^verbatim>\<open>maximum\<close> and \<^verbatim>\<open>exclusiveMinimum\<close> only: two schemas that agree on these
  two properties get the same result, whatever \<^verbatim>\<open>exclusiveMaximum\<close> says. Symmetrically
  a numeric \<^verbatim>\<open>minimum\<close> \<open>m'\<close> yields exactly one lower-bound rule, \<^verbatim>\<open>number-gt\<close> \<open>m'\<close> when
  the flag is set and \<^verbatim>\<open>number-gte\<close> \<open>m'\<close> otherwise.
\<close>

theorem number_bound_rules:
  assumes "getProperty n ''exclusiveMinimum'' = None \<or>
           (\<exists>l. getProperty n ''exclusiveMinimum'' = Some (Literal l))"
  shows
  "(getProperty n ''maximum'' = Some (Literal (LNumber m)) \<longrightarrow>
      numberLessThanFactory (NumberSchemaNode n) =
        Inr (Some (if flagHolds (getProperty n ''exclusiveMinimum'')
                   then NumberLT m else NumberLTE m)) \<and>
      (\<forall>required rules. parseRules doc (NumberSchemaNode n) required = Inr rules \<longrightarrow>
         filter isUpperBound rules =
           [if flagHolds (getProperty n ''exclusiveMinimum'') then NumberLT m else NumberLTE m])) \<and>
   (getProperty n ''minimum'' = Some (Literal (LNumber m')) \<longrightarrow>
      numberGreaterThanFactory (NumberSchemaNode n) =
        Inr (Some (if flagHolds (getProperty n ''exclusiveMinimum'')
                   then NumberGT m' else NumberGTE m')) \<and>
      (\<forall>required rules. parseRules doc (NumberSchemaNode n) required = Inr rules \<longrightarrow>
         filter isLowerBound rules =
           [if flagHolds (getProperty n ''exclusiveMinimum'') then NumberGT m' else NumberGTE m'])) \<and>
   (\<forall>n'. getProperty n' ''maximum'' = getProperty n ''maximum'' \<longrightarrow>
      getProperty n' ''exclusiveMinimum'' = getProperty n ''exclusiveMinimum'' \<longrightarrow>
      numberLessThanFactory (NumberSchemaNode n') = numberLessThanFactory (NumberSchemaNode n)) \<and>
   (\<not> flagHolds None \<and>
    (\<forall>b. flagHolds (Some (Literal (LBoolean b))) = b) \<and>
    (\<forall>x. flagHolds (Some (Literal (LNumber x))) = (x \<noteq> Finite 0 \<and> x \<noteq> NaN)) \<and>
    (\<forall>s. flagHolds (Some (Literal (LString s))) = (s \<noteq> [])) \<and>
    \<not> flagHolds (Some (Literal LNull)))"
proof -
  let ?ex = "flagHolds (getProperty n ''exclusiveMinimum'')"
  note fl = flagValue_holds [OF assms]
  have a: "getProperty n ''maximum'' = Some (Literal (LNumber m)) \<longrightarrow>
      numberLessThanFactory (NumberSchemaNode n) =
        Inr (Some (if ?ex then NumberLT m else NumberLTE m)) \<and>
      (\<forall>required rules. parseRules doc (NumberSchemaNode n) required = Inr rules \<longrightarrow>
         filter isUpperBound rules = [if ?ex then NumberLT m else NumberLTE m])"
  proof
    assume mx: "getProperty n ''maximum'' = Some (Literal (LNumber m))"
    have "\<forall>required rules. parseRules doc (NumberSchemaNode n) required = Inr rules \<longrightarrow>
         filter isUpperBound rules = [if ?ex then NumberLT m else NumberLTE m]"
    proof (intro allI impI)
      fix required rules
      assume "parseRules doc (NumberSchemaNode n) required = Inr rules"
      then obtain localRules where
        "applyFactories factories (NumberSchemaNode n) = Inr localRules"
        "filter isUpperBound rules = filter isUpperBound localRules"
        by (rule parseRules_number_bounds)
      then show "filter isUpperBound rules = [if ?ex then NumberLT m else NumberLTE m]"
        using upper_bound_once [OF mx fl] by simp
    qed
    then show "numberLessThanFactory (NumberSchemaNode n) =
        Inr (Some (if ?ex then NumberLT m else NumberLTE m)) \<and>
      (\<forall>required rules. parseRules doc (NumberSchemaNode n) required = Inr rules \<longrightarrow>
         filter isUpperBound rules = [if ?ex then NumberLT m else NumberLTE m])"
      using numberLessThanFactory_numeric [OF mx fl] by blast
  qed
  have b: "getProperty n ''minimum'' = Some (Literal (LNumber m')) \<longrightarrow>
      numberGreaterThanFactory (NumberSchemaNode n) =
        Inr (Some (if ?ex then NumberGT m' else NumberGTE m')) \<and>
      (\<forall>required rules. parseRules doc (NumberSchemaNode n) required = Inr rules \<longrightarrow>
         filter isLowerBound rules = [if ?ex then NumberGT m' else NumberGTE m'])"
  proof
    assume mn: "getProperty n ''minimum'' = Some (Literal (LNumber m'))"
    have "\<forall>required rules. parseRules doc (NumberSchemaNode n) required = Inr rules \<longrightarrow>
         filter isLowerBound rules = [if ?ex then NumberGT m' else NumberGTE m']"
    proof (intro allI impI)
      fix required rules
      assume "parseRules doc (NumberSchemaNode n) required = Inr rules"
      then obtain localRules where
        "applyFactories factories (NumberSchemaNode n) = Inr localRules"
        "filter isLowerBound rules = filter isLowerBound localRules"
        by (rule parseRules_number_bounds)
      then show "filter isLowerBound rules = [if ?ex then NumberGT m' else NumberGTE m']"
        using lower_bound_once [OF mn fl] by simp
    qed
    then show "numberGreaterThanFactory (NumberSchemaNode n) =
        Inr (Some (if ?ex then NumberGT m' else NumberGTE m')) \<and>
      (\<forall>required rules. parseRules doc (NumberSchemaNode n) required = Inr rules \<longrightarrow>
         filter isLowerBound rules = [if ?ex then NumberGT m' else NumberGTE m'])"
      using numberGreaterThanFactory_numeric [OF mn fl] by blast
  qed
  have c: "\<forall>n'. getProperty n' ''maximum'' = getProperty n ''maximum'' \<longrightarrow>
      getProperty n' ''exclusiveMinimum'' = getProperty n ''exclusiveMinimum'' \<longrightarrow>
      numberLessThanFactory (NumberSchemaNode n') = numberLessThanFactory (NumberSchemaNode n)"
    using lessThan_ignores_exclusiveMaximum by blast
  show ?thesis by (rule conjI [OF a conjI [OF b conjI [OF c flagHolds_table]]])
qed

text \<open>
  \<open>numSchema\<close> has \<^verbatim>\<open>maximum: 10\<close>, \<^verbatim>\<open>minimum: 1\<close> and \<^verbatim>\<open>exclusiveMaximum: true\<close> but no
  \<^verbatim>\<open>exclusiveMinimum\<close>: its rules are \<^verbatim>\<open>number-gte 1\<close> and \<^verbatim>\<open>number-lte 10\<close>. \<open>numSchema2\<close>
  has \<^verbatim>\<open>maximum: 10\<close> and \<^verbatim>\<open>exclusiveMinimum: true\<close>: its rule is \<^verbatim>\<open>number-lt 10\<close>.
\<close>

theorem number_bound_rules_witness:
  "getProperty numSchema ''exclusiveMinimum'' = None \<and>
   getProperty numSchema ''maximum'' = Some (Literal (LNumber (Finite 10))) \<and>
   getProperty numSchema ''minimum'' = Some (Literal (LNumber (Finite 1))) \<and>
   getProperty numSchema ''exclusiveMaximum'' = Some (Literal (LBoolean True)) \<and>
   numberLessThanFactory (NumberSchemaNode numSchema) = Inr (Some (NumberLTE (Finite 10))) \<and>
   parseRules doc1 (NumberSchemaNode numSchema) True
     = Inr [Required, NumberGTE (Finite 1), NumberLTE (Finite 10)] \<and>
   filter isUpperBound [Required, NumberGTE (Finite 1), NumberLTE (Finite 10)]
     = [NumberLTE (Finite 10)] \<and>
   filter isLowerBound [Required, NumberGTE (Finite 1), NumberLTE (Finite 10)]
     = [NumberGTE (Finite 1)] \<and>
   getProperty numSchema2 ''exclusiveMinimum'' = Some (Literal (LBoolean True)) \<and>
   getProperty numSchema2 ''maximum'' = Some (Literal (LNumber (Finite 10))) \<and>
   numberLessThanFactory (NumberSchemaNode numSchema2) = Inr (Some (NumberLT (Finite 10)))"
proof -
  have f: "getProperty numSchema ''exclusiveMinimum'' = None"
    by (simp add: numSchema_def getProperty_def)
  have f': "getProperty numSchema ''exclusiveMinimum'' = None \<or>
      (\<exists>l. getProperty numSchema ''exclusiveMinimum'' = Some (Literal l))"
    using f by simp
  have p: "parseRules doc1 (NumberSchemaNode numSchema) True
     = Inr [Required, NumberGTE (Finite 1), NumberLTE (Finite 10)]"
    by (simp add: parseRules_number applyFactories_number numSchema_def bind_def
          numberMultipleOfFactory_def numberGreaterThanFactory_def numberLessThanFactory_def
          numberValue_def flagValue_def optValue_def getLiteral_def getChild_def getProperty_def
          literalValue_def List.map_filter_def)
  have gmax: "getProperty numSchema ''maximum'' = Some (Literal (LNumber (Finite 10)))"
    by (simp add: numSchema_def getProperty_def)
  have gmin: "getProperty numSchema ''minimum'' = Some (Literal (LNumber (Finite 1)))"
    by (simp add: numSchema_def getProperty_def)
  have gex: "getProperty numSchema ''exclusiveMaximum'' = Some (Literal (LBoolean True))"
    by (simp add: numSchema_def getProperty_def)
  have l: "numberLessThanFactory (NumberSchemaNode numSchema) = Inr (Some (NumberLTE (Finite 10)))"
    using number_bound_rules [OF f', THEN conjunct1, THEN mp, OF gmax, THEN conjunct1]
    by (simp add: f flagHolds_def)
  have u: "filter isUpperBound [Required, NumberGTE (Finite 1), NumberLTE (Finite 10)]
     = [NumberLTE (Finite 10)]"
    by (simp add: isUpperBound_def)
  have w: "filter isLowerBound [Required, NumberGTE (Finite 1), NumberLTE (Finite 10)]
     = [NumberGTE (Finite 1)]"
    by (simp add: isLowerBound_def)
  have f2: "getProperty numSchema2 ''exclusiveMinimum'' = Some (Literal (LBoolean True))"
    by (simp add: numSchema2_def getProperty_def)
  have f2': "getProperty numSchema2 ''exclusiveMinimum'' = None \<or>
      (\<exists>l. getProperty numSchema2 ''exclusiveMinimum'' = Some (Literal l))"
    using f2 by simp
  have g2: "getProperty numSchema2 ''maximum'' = Some (Literal (LNumber (Finite 10)))"
    by (simp add: numSchema2_def getProperty_def)
  have l2: "numberLessThanFactory (NumberSchemaNode numSchema2) = Inr (Some (NumberLT (Finite 10)))"
    using number_bound_rules [OF f2', THEN conjunct1, THEN mp, OF g2, THEN conjunct1]
    by (simp add: f2 flagHolds_def)
  from f gmax gmin gex l p u w f2 g2 l2 show ?thesis by blast
qed

text \<open>
  Against claim C5 as stated (\<^verbatim>\<open>number-lt\<close> when the flag is true, \<^verbatim>\<open>number-lte\<close>
  otherwise): \<open>numSchema3\<close> has \<^verbatim>\<open>maximum: 10\<close>, \<^verbatim>\<open>minimum: 1\<close> and the string \<^verbatim>\<open>"false"\<close> as
  \<^verbatim>\<open>exclusiveMinimum\<close>. The flag is not true, and the rules are \<^verbatim>\<open>number-gt 1\<close> and
  \<^verbatim>\<open>number-lt 10\<close>, because a non-empty string is truthy.
\<close>

theorem number_bound_string_flag_counterexample:
  "getProperty numSchema3 ''maximum'' = Some (Literal (LNumber (Finite 10))) \<and>
   getProperty numSchema3 ''minimum'' = Some (Literal (LNumber (Finite 1))) \<and>
   getProperty numSchema3 ''exclusiveMinimum'' = Some (Literal (LString ''false'')) \<and>
   LString ''false'' \<noteq> LBoolean True \<and>
   numberLessThanFactory (NumberSchemaNode numSchema3) = Inr (Some (NumberLT (Finite 10))) \<and>
   numberGreaterThanFactory (NumberSchemaNode numSchema3) = Inr (Some (NumberGT (Finite 1))) \<and>
   parseRules doc1 (NumberSchemaNode numSchema3) False
     = Inr [NumberGT (Finite 1), NumberLT (Finite 10)] \<and>
   ruleId (NumberLT (Finite 10)) = ''number-lt'' \<and>
   ruleId (NumberLT (Finite 10)) \<noteq> ''number-lte''"
  by (simp add: parseRules_number applyFactories_number numSchema3_def bind_def
        numberMultipleOfFactory_def numberGreaterThanFactory_def numberLessThanFactory_def
        numberValue_def flagValue_def optValue_def getLiteral_def getChild_def getProperty_def
        literalValue_def List.map_filter_def)

section \<open>The success status code: properties\<close>

lemma firstSuccessKey_starts: "firstSuccessKey rs = Some c \<Longrightarrow> startsWith c ''2''"
  unfolding firstSuccessKey_def
  by (auto split: list.splits dest: filter_eq_ConsD)

lemma firstSuccessKey_not_default: "firstSuccessKey rs \<noteq> Some ''default''"
  using firstSuccessKey_starts [of rs "''default''"] by (auto simp: startsWith_def)

lemma primary_numeric:
  "getChild operation ''responses'' = Some responses \<Longrightarrow>
   firstSuccessKey responses = Some c \<Longrightarrow> Number c \<noteq> NaN \<Longrightarrow>
   parsePrimaryResponseKey Number operation = Inr (Some (NumericKey (Number c)))"
  using firstSuccessKey_not_default [of responses]
  by (simp add: parsePrimaryResponseKey_def Let_def)

lemma primary_default:
  "getChild operation ''responses'' = Some responses \<Longrightarrow>
   firstSuccessKey responses = None \<or> (\<exists>c. firstSuccessKey responses = Some c \<and> Number c = NaN) \<Longrightarrow>
   parsePrimaryResponseKey Number operation =
     Inr (if getChildOrRef responses ''default'' \<noteq> None then Some DefaultKey else None)"
  using firstSuccessKey_not_default [of responses]
  by (auto simp: parsePrimaryResponseKey_def Let_def)

text \<open>
  Claim C3, as the code has it. For every operation with a \<^verbatim>\<open>responses\<close> object, take
  the first response key starting with \<^verbatim>\<open>2\<close> in document order. If there is one and it is
  numeric, the success code is its numeric value. Otherwise, if a \<^verbatim>\<open>default\<close> response
  exists (and resolves), the code is, when that response declares body content, 202 for
  the verb \<^verbatim>\<open>delete\<close>, 204 for \<^verbatim>\<open>options\<close>, 201 for \<^verbatim>\<open>post\<close> and 200 for every other verb,
  and 204 when it declares none. Otherwise, with no \<^verbatim>\<open>default\<close> response, the code is 200.
\<close>

theorem success_code:
  assumes "getChild operation ''responses'' = Some responses"
  shows
  "(\<forall>c. firstSuccessKey responses = Some c \<longrightarrow> Number c \<noteq> NaN \<longrightarrow>
      parseResponseCode Number doc verb operation = Inr (Number c)) \<and>
   (firstSuccessKey responses = None \<or>
      (\<exists>c. firstSuccessKey responses = Some c \<and> Number c = NaN) \<longrightarrow>
      (\<forall>res response. getChildOrRef responses ''default'' = Some res \<longrightarrow>
         resolve doc res = Inr response \<longrightarrow>
         parseResponseCode Number doc verb operation =
           Inr (if declaresContent response then
                  (if verb = ''delete'' then Finite 202
                   else if verb = ''options'' then Finite 204
                   else if verb = ''post'' then Finite 201
                   else Finite 200)
                else Finite 204)) \<and>
      (getChildOrRef responses ''default'' = None \<longrightarrow>
         parseResponseCode Number doc verb operation = Inr (Finite 200)))"
proof -
  have a: "\<forall>c. firstSuccessKey responses = Some c \<longrightarrow> Number c \<noteq> NaN \<longrightarrow>
      parseResponseCode Number doc verb operation = Inr (Number c)"
    using assms by (simp add: parseResponseCode_def primary_numeric bind_def)
  have b: "firstSuccessKey responses = None \<or>
      (\<exists>c. firstSuccessKey responses = Some c \<and> Number c = NaN) \<longrightarrow>
      (\<forall>res response. getChildOrRef responses ''default'' = Some res \<longrightarrow>
         resolve doc res = Inr response \<longrightarrow>
         parseResponseCode Number doc verb operation =
           Inr (if declaresContent response then
                  (if verb = ''delete'' then Finite 202
                   else if verb = ''options'' then Finite 204
                   else if verb = ''post'' then Finite 201
                   else Finite 200)
                else Finite 204)) \<and>
      (getChildOrRef responses ''default'' = None \<longrightarrow>
         parseResponseCode Number doc verb operation = Inr (Finite 200))"
  proof
    assume h: "firstSuccessKey responses = None \<or>
      (\<exists>c. firstSuccessKey responses = Some c \<and> Number c = NaN)"
    note p = primary_default [OF assms h]
    show "(\<forall>res response. getChildOrRef responses ''default'' = Some res \<longrightarrow>
         resolve doc res = Inr response \<longrightarrow>
         parseResponseCode Number doc verb operation =
           Inr (if declaresContent response then
                  (if verb = ''delete'' then Finite 202
                   else if verb = ''options'' then Finite 204
                   else if verb = ''post'' then Finite 201
                   else Finite 200)
                else Finite 204)) \<and>
      (getChildOrRef responses ''default'' = None \<longrightarrow>
         parseResponseCode Number doc verb operation = Inr (Finite 200))"
      using assms by (simp add: parseResponseCode_def p bind_def)
  qed
  from a b show ?thesis by blast
qed

text \<open>
  \<open>createdOperation\<close> lists the keys \<^verbatim>\<open>404\<close>, \<^verbatim>\<open>201\<close>, \<^verbatim>\<open>200\<close>: the first key starting
  with \<^verbatim>\<open>2\<close> is \<^verbatim>\<open>201\<close>, and the success code is 201 (document order, no sorting).
\<close>

theorem success_code_witness:
  "getChild createdOperation ''responses''
     = Some (Object [(''404'', Object []), (''201'', jsonBody), (''200'', jsonBody)]) \<and>
   firstSuccessKey (Object [(''404'', Object []), (''201'', jsonBody), (''200'', jsonBody)])
     = Some ''201'' \<and>
   decimalNumber ''201'' = Finite 201 \<and>
   parseResponseCode decimalNumber doc1 ''get'' createdOperation = Inr (Finite 201)"
proof -
  have r: "getChild createdOperation ''responses''
     = Some (Object [(''404'', Object []), (''201'', jsonBody), (''200'', jsonBody)])"
    by (simp add: createdOperation_def getChild_def getProperty_def)
  have k: "firstSuccessKey (Object [(''404'', Object []), (''201'', jsonBody), (''200'', jsonBody)])
     = Some ''201''"
    by (simp add: firstSuccessKey_def keys_def startsWith_def)
  have n: "decimalNumber ''201'' = Finite 201"
    by (simp add: decimalNumber_def digitOf_def)
  have "parseResponseCode decimalNumber doc1 ''get'' createdOperation = Inr (decimalNumber ''201'')"
    using success_code [OF r, THEN conjunct1, rule_format, OF k, of decimalNumber doc1 "''get''"] n
    by simp
  with r k n show ?thesis by simp
qed

text \<open>
  Against claim C3 as stated (200 for every verb other than \<^verbatim>\<open>delete\<close> and \<^verbatim>\<open>options\<close>):
  a \<^verbatim>\<open>post\<close> operation whose only response is a \<^verbatim>\<open>default\<close> with a body gets 201.
\<close>

theorem success_code_post_counterexample:
  "getChild defaultOnlyOperation ''responses'' = Some (Object [(''default'', jsonBody)]) \<and>
   firstSuccessKey (Object [(''default'', jsonBody)]) = None \<and>
   resolve doc1 (Node jsonBody) = Inr jsonBody \<and>
   declaresContent jsonBody \<and>
   ''post'' \<noteq> ''delete'' \<and> ''post'' \<noteq> ''options'' \<and>
   parseResponseCode decimalNumber doc1 ''post'' defaultOnlyOperation = Inr (Finite 201) \<and>
   parseResponseCode decimalNumber doc1 ''post'' defaultOnlyOperation \<noteq> Inr (Finite 200)"
  by (simp add: defaultOnlyOperation_def jsonBody_def parseResponseCode_def
        parsePrimaryResponseKey_def firstSuccessKey_def getChild_def getProperty_def
        getChildOrRef_def isRef_def keys_def startsWith_def resolve_def declaresContent_def
        bind_def Let_def)

section \<open>Security projection: properties\<close>

lemma mapM_Inr_iff:
  "(mapM f xs = Inr ys) = list_all2 (\<lambda>x y. f x = Inr y) xs ys"
proof (induction xs arbitrary: ys)
  case Nil
  then show ?case by auto
next
  case (Cons x xs)
  show ?case
  proof (cases "f x")
    case (Inl e)
    then show ?thesis by (simp add: bind_def list_all2_Cons1)
  next
    case fx: (Inr y)
    show ?thesis
    proof (cases "mapM f xs")
      case (Inl e)
      then have "\<And>zs. \<not> list_all2 (\<lambda>x y. f x = Inr y) xs zs"
        using Cons.IH by simp
      with fx Inl show ?thesis by (simp add: bind_def list_all2_Cons1)
    next
      case (Inr zs)
      have "\<And>zs'. list_all2 (\<lambda>x y. f x = Inr y) xs zs' = (zs' = zs)"
      proof -
        fix zs'
        have "list_all2 (\<lambda>x y. f x = Inr y) xs zs' = (mapM f xs = Inr zs')"
          by (simp only: Cons.IH)
        also have "\<dots> = (zs' = zs)" using Inr by auto
        finally show "list_all2 (\<lambda>x y. f x = Inr y) xs zs' = (zs' = zs)" .
      qed
      with fx Inr show ?thesis by (auto simp: bind_def list_all2_Cons1)
    qed
  qed
qed

lemma parseSecurityScheme_Some:
  "parseSecurityScheme doc req key = Inr (Some s) \<Longrightarrow>
   schemeName s = key \<and> getArray req key \<noteq> None \<and> representable (readSecurityScheme doc key)"
  by (auto simp: parseSecurityScheme_def parseHttpSecurity_def parseApiKeySecurity_def
        parseOAuth2Security_def bind_def
      split: sum.splits option.splits OrRef.splits SecuritySchemeNode.splits if_splits)

lemma parseSecurityScheme_None:
  "parseSecurityScheme doc req key = Inr None \<Longrightarrow>
   \<not> (getArray req key \<noteq> None \<and> representable (readSecurityScheme doc key))"
  by (auto simp: parseSecurityScheme_def parseHttpSecurity_def parseApiKeySecurity_def
        parseOAuth2Security_def bind_def
      split: sum.splits option.splits OrRef.splits SecuritySchemeNode.splits if_splits)

lemma contributed_names:
  "list_all2 (\<lambda>k r. parseSecurityScheme doc req k = Inr r) ks rs \<Longrightarrow>
   map schemeName (List.map_filter id rs) =
     filter (\<lambda>k. getArray req k \<noteq> None \<and> representable (readSecurityScheme doc k)) ks"
proof (induction ks rs rule: list_all2_induct)
  case Nil
  then show ?case by (simp add: List.map_filter_def)
next
  case (Cons k ks r rs)
  note IH = Cons.IH
  note kr = Cons.hyps(1)
  show ?case
  proof (cases r)
    case None
    then have "\<not> (getArray req k \<noteq> None \<and> representable (readSecurityScheme doc k))"
      using parseSecurityScheme_None kr by blast
    with None IH show ?thesis by (simp add: List.map_filter_def)
  next
    case (Some s)
    then have "schemeName s = k \<and> getArray req k \<noteq> None \<and>
        representable (readSecurityScheme doc k)"
      using parseSecurityScheme_Some kr by blast
    with Some IH show ?thesis by (simp add: List.map_filter_def)
  qed
qed

lemma parseSecurityOption_names:
  assumes "parseSecurityOption doc req = Inr option"
  shows "map schemeName option =
    filter (\<lambda>k. getArray req k \<noteq> None \<and> representable (readSecurityScheme doc k)) (keys req)"
proof -
  from assms obtain rs where
    m: "mapM (parseSecurityScheme doc req) (keys req) = Inr rs" and
    r: "option = List.map_filter id rs"
    by (auto simp: parseSecurityOption_def bind_def split: sum.splits)
  from m have "list_all2 (\<lambda>k r. parseSecurityScheme doc req k = Inr r) (keys req) rs"
    by (simp only: mapM_Inr_iff)
  from contributed_names [OF this] r show ?thesis by simp
qed

lemma openIdConnect_contributes_nothing:
  "readSecurityScheme doc k = Inr (Some (Node (OpenIdConnectSecuritySchemeNode d))) \<Longrightarrow>
   parseSecurityScheme doc requirements k = Inr None"
  by (simp add: parseSecurityScheme_def bind_def)

lemma readSecurityScheme_cong:
  assumes "securitySchemes doc' = securitySchemes doc"
  shows "readSecurityScheme doc' = readSecurityScheme doc"
  using assms by (intro ext) (simp add: readSecurityScheme_def)

lemma parseSecurityScheme_cong:
  assumes "securitySchemes doc' = securitySchemes doc"
  shows "parseSecurityScheme doc' = parseSecurityScheme doc"
  by (intro ext) (simp add: parseSecurityScheme_def readSecurityScheme_cong [OF assms])

lemma parseSecurityOption_cong:
  assumes "securitySchemes doc' = securitySchemes doc"
  shows "parseSecurityOption doc' = parseSecurityOption doc"
  by (intro ext) (simp add: parseSecurityOption_def parseSecurityScheme_cong [OF assms])

text \<open>
  Claim C6. A \<^verbatim>\<open>security\<close> field is declared when it holds an array. The security options
  of an operation are derived from the operation-level list when the operation declares
  one (even an empty one), otherwise from the document-level list, otherwise from the
  empty list; the two lists are never merged: whenever \<^verbatim>\<open>parseSecurity\<close> returns, it
  returns one option per requirement of that one list, in order, and the schemes of an
  option are named by exactly those keys of the requirement, in order, that hold an array
  (of scopes) and whose definition is an \<^verbatim>\<open>http\<close>, \<^verbatim>\<open>apiKey\<close> or \<^verbatim>\<open>oauth2\<close> scheme. With
  neither list declared the result is the empty list of options. A key whose definition
  is an \<^verbatim>\<open>openIdConnect\<close> scheme contributes nothing, whatever the requirement holds for
  it. When the operation declares a list, the result does not depend on the
  document-level list.
\<close>

theorem security_options:
  "(\<forall>options. parseSecurity doc operation = Inr options \<longrightarrow>
      list_all2
        (\<lambda>requirements option.
           map schemeName option =
             filter (\<lambda>k. getArray requirements k \<noteq> None \<and>
                         representable (readSecurityScheme doc k))
               (keys requirements))
        (case getArray operation ''security'' of
           Some s \<Rightarrow> s
         | None \<Rightarrow> (case getArray doc ''security'' of Some s \<Rightarrow> s | None \<Rightarrow> []))
        options) \<and>
   (getArray operation ''security'' = None \<longrightarrow> getArray doc ''security'' = None \<longrightarrow>
      parseSecurity doc operation = Inr []) \<and>
   (\<forall>requirements k n.
      readSecurityScheme doc k = Inr (Some (Node (OpenIdConnectSecuritySchemeNode n))) \<longrightarrow>
      parseSecurityScheme doc requirements k = Inr None) \<and>
   (getArray operation ''security'' \<noteq> None \<longrightarrow>
      (\<forall>doc'. securitySchemes doc' = securitySchemes doc \<longrightarrow>
         parseSecurity doc' operation = parseSecurity doc operation))"
proof -
  let ?chosen = "case getArray operation ''security'' of
           Some s \<Rightarrow> s
         | None \<Rightarrow> (case getArray doc ''security'' of Some s \<Rightarrow> s | None \<Rightarrow> [])"
  have p: "parseSecurity doc operation = mapM (parseSecurityOption doc) ?chosen"
    by (simp add: parseSecurity_def Let_def)
  have a: "\<forall>options. parseSecurity doc operation = Inr options \<longrightarrow>
      list_all2
        (\<lambda>requirements option.
           map schemeName option =
             filter (\<lambda>k. getArray requirements k \<noteq> None \<and>
                         representable (readSecurityScheme doc k))
               (keys requirements))
        ?chosen options"
  proof (intro allI impI)
    fix options
    assume "parseSecurity doc operation = Inr options"
    then have "list_all2 (\<lambda>x y. parseSecurityOption doc x = Inr y) ?chosen options"
      by (simp only: p mapM_Inr_iff)
    then show "list_all2
        (\<lambda>requirements option.
           map schemeName option =
             filter (\<lambda>k. getArray requirements k \<noteq> None \<and>
                         representable (readSecurityScheme doc k))
               (keys requirements))
        ?chosen options"
      by (rule list_all2_mono) (rule parseSecurityOption_names)
  qed
  have b: "getArray operation ''security'' = None \<longrightarrow> getArray doc ''security'' = None \<longrightarrow>
      parseSecurity doc operation = Inr []"
    by (simp add: p)
  have c: "\<forall>requirements k n.
      readSecurityScheme doc k = Inr (Some (Node (OpenIdConnectSecuritySchemeNode n))) \<longrightarrow>
      parseSecurityScheme doc requirements k = Inr None"
    using openIdConnect_contributes_nothing by blast
  have e: "getArray operation ''security'' \<noteq> None \<longrightarrow>
      (\<forall>doc'. securitySchemes doc' = securitySchemes doc \<longrightarrow>
         parseSecurity doc' operation = parseSecurity doc operation)"
  proof (intro impI allI)
    fix doc'
    assume os: "getArray operation ''security'' \<noteq> None"
      and ss: "securitySchemes doc' = securitySchemes doc"
    from os obtain s where s: "getArray operation ''security'' = Some s" by auto
    have "parseSecurity doc' operation = mapM (parseSecurityOption doc') s"
      using s by (simp add: parseSecurity_def Let_def)
    also have "\<dots> = mapM (parseSecurityOption doc) s"
      by (simp only: parseSecurityOption_cong [OF ss])
    also have "\<dots> = parseSecurity doc operation"
      using p s by simp
    finally show "parseSecurity doc' operation = parseSecurity doc operation" .
  qed
  show ?thesis by (rule conjI [OF a conjI [OF b conjI [OF c e]]])
qed

text \<open>
  In \<open>secDoc\<close> the document requires \<^verbatim>\<open>basic\<close>. \<open>securedOperation\<close> has one requirement
  with the keys \<^verbatim>\<open>oidc\<close> and \<^verbatim>\<open>key\<close>, each with an array of scopes, and \<^verbatim>\<open>basic\<close> with a
  string in place of the array. The operation gets one option holding the API key scheme
  only: the document-level requirement is not used, the \<^verbatim>\<open>openIdConnect\<close> scheme is
  excluded, and the key without an array is dropped.
\<close>

theorem security_options_witness:
  "getArray secDoc ''security'' = Some [Object [(''basic'', Array [])]] \<and>
   getArray securedOperation ''security'' = Some [securedRequirement] \<and>
   keys securedRequirement = [''oidc'', ''key'', ''basic''] \<and>
   parseSecurity secDoc securedOperation
     = Inr [[ApiKeyScheme ''key'' None (Some (LString ''X-Key'')) (Some (LString ''header'')) None]] \<and>
   filter (\<lambda>k. getArray securedRequirement k \<noteq> None \<and>
               representable (readSecurityScheme secDoc k))
     (keys securedRequirement) = [''key''] \<and>
   parseSecurity secDoc (Object []) = Inr [[BasicScheme ''basic'' None]]"
proof -
  have d: "getArray secDoc ''security'' = Some [Object [(''basic'', Array [])]]"
    by (simp add: secDoc_def getArray_def getProperty_def)
  have o: "getArray securedOperation ''security'' = Some [securedRequirement]"
    by (simp add: securedOperation_def getArray_def getProperty_def)
  have k: "keys securedRequirement = [''oidc'', ''key'', ''basic'']"
    by (simp add: securedRequirement_def keys_def)
  have s: "securitySchemes secDoc = Some (Object
           [(''basic'', Object [(''type'', Literal (LString ''http''))]),
            (''key'', Object
               [(''type'', Literal (LString ''apiKey'')),
                (''name'', Literal (LString ''X-Key'')),
                (''in'', Literal (LString ''header''))]),
            (''oidc'', Object
               [(''type'', Literal (LString ''openIdConnect'')),
                (''openIdConnectUrl'', Literal (LString ''https://id.example''))])])"
    by (simp add: secDoc_def securitySchemes_def getChild_def getProperty_def)
  have p: "parseSecurity secDoc securedOperation
     = Inr [[ApiKeyScheme ''key'' None (Some (LString ''X-Key'')) (Some (LString ''header'')) None]]"
    unfolding parseSecurity_def d o
    by (simp add: bind_def parseSecurityOption_def parseSecurityScheme_def keys_def
          securedRequirement_def
          readSecurityScheme_def s toSecuritySchemeOrRef_def isRef_def getArray_def
          getProperty_def parseHttpSecurity_def parseApiKeySecurity_def optValue_def
          getLiteral_def getChild_def
          literalValue_def parseMeta_def startsWith_def List.map_filter_def)
  have q: "parseSecurity secDoc (Object []) = Inr [[BasicScheme ''basic'' None]]"
    unfolding parseSecurity_def d
    by (simp add: bind_def parseSecurityOption_def parseSecurityScheme_def keys_def
          readSecurityScheme_def s toSecuritySchemeOrRef_def isRef_def getArray_def
          getProperty_def parseHttpSecurity_def parseMeta_def startsWith_def
          List.map_filter_def)
  have "list_all2
        (\<lambda>requirements option.
           map schemeName option =
             filter (\<lambda>k. getArray requirements k \<noteq> None \<and>
                         representable (readSecurityScheme secDoc k))
               (keys requirements))
        [securedRequirement]
        [[ApiKeyScheme ''key'' None (Some (LString ''X-Key'')) (Some (LString ''header'')) None]]"
    using security_options [of secDoc securedOperation, THEN conjunct1, rule_format, OF p]
    by (simp add: o)
  then have f: "filter (\<lambda>k. getArray securedRequirement k \<noteq> None \<and>
               representable (readSecurityScheme secDoc k))
     (keys securedRequirement) = [''key'']"
    by simp
  show ?thesis by (rule conjI [OF d conjI [OF o conjI [OF k conjI [OF p conjI [OF f q]]]]])
qed

end
